theory Spec2Isabelle
  imports Complex_Main "HOL-Library.Multiset" "HOL-Library.Char_ord" "HOL-Library.List_Lexorder"
begin

chapter \<open>Reverse-mode differentiation pass (Derivative.cpp) and the Scope symbol table\<close>

section \<open>Errors\<close>

text \<open>
  The C++ code aborts through four channels: \<^verbatim>\<open>user_error\<close> and \<^verbatim>\<open>user_assert\<close> (a
  diagnostic for the user, carrying a message), \<^verbatim>\<open>internal_error\<close> and
  \<^verbatim>\<open>internal_assert\<close> (a broken internal invariant), and the C \<^verbatim>\<open>assert\<close> macro. Each
  is a value of \<open>error\<close>; a function that can abort returns \<open>error + 'a\<close>.
\<close>

datatype error =
    User_error string
  | Internal_error
  | Assert_failed

text \<open>A loop whose body can abort stops at the first round that does: \<open>map_err\<close>
  collects the results of the rounds, \<open>fold_err\<close> threads a state through them.\<close>

fun map_err :: "('a \<Rightarrow> error + 'b) \<Rightarrow> 'a list \<Rightarrow> error + 'b list" where
  "map_err f [] = Inr []"
| "map_err f (x # xs) =
     (case f x of
        Inl e \<Rightarrow> Inl e
      | Inr y \<Rightarrow> (case map_err f xs of Inl e \<Rightarrow> Inl e | Inr ys \<Rightarrow> Inr (y # ys)))"

fun fold_err :: "('a \<Rightarrow> 's \<Rightarrow> error + 's) \<Rightarrow> 'a list \<Rightarrow> 's \<Rightarrow> error + 's" where
  "fold_err f [] s = Inr s"
| "fold_err f (x # xs) s = (case f x s of Inl e \<Rightarrow> Inl e | Inr s' \<Rightarrow> fold_err f xs s')"

section \<open>Scope.h: SmallStack and Scope\<close>

text \<open>
  \<^verbatim>\<open>SmallStack<T>\<close> keeps the top element in \<^verbatim>\<open>_top\<close>, the elements below it in the
  vector \<^verbatim>\<open>_rest\<close> (its back is the element right below the top) and the flag
  \<^verbatim>\<open>_empty\<close>. \<^verbatim>\<open>T()\<close>, the value-initialised element that \<^verbatim>\<open>pop\<close> stores when the
  last element goes, is \<open>default\<close>.
\<close>

record 'a SmallStack =
  s_top :: 'a
  s_rest :: "'a list"
  s_empty :: bool

definition SmallStack_new :: "('a::default) SmallStack" where
  "SmallStack_new = \<lparr>s_top = default, s_rest = [], s_empty = True\<rparr>"

definition SmallStack_pop :: "('a::default) SmallStack \<Rightarrow> 'a SmallStack" where
  "SmallStack_pop s =
     (if s_rest s = [] then s\<lparr>s_empty := True, s_top := default\<rparr>
      else s\<lparr>s_top := last (s_rest s), s_rest := butlast (s_rest s)\<rparr>)"

definition SmallStack_push :: "'a \<Rightarrow> 'a SmallStack \<Rightarrow> 'a SmallStack" where
  "SmallStack_push t s =
     (if s_empty s then s\<lparr>s_empty := False, s_top := t\<rparr>
      else s\<lparr>s_rest := s_rest s @ [s_top s], s_top := t\<rparr>)"

definition SmallStack_top :: "'a SmallStack \<Rightarrow> 'a" where
  "SmallStack_top s = s_top s"

definition SmallStack_set_top :: "'a \<Rightarrow> 'a SmallStack \<Rightarrow> 'a SmallStack" where
  \<comment> \<open>the assignment \<^verbatim>\<open>top_ref() = value\<close>\<close>
  "SmallStack_set_top t s = s\<lparr>s_top := t\<rparr>"

text \<open>
  A \<^verbatim>\<open>Scope<T>\<close> holds the same bindings twice, in the ordered map \<^verbatim>\<open>m_table\<close> and in
  the unordered map \<^verbatim>\<open>o_table\<close>, and a pointer to the containing scope (null when there
  is none).
\<close>

datatype 'a Scope =
  Scope (m_table: "string \<Rightarrow> 'a SmallStack option")
        (o_table: "string \<Rightarrow> 'a SmallStack option")
        (containing_scope: "'a Scope option")

definition Scope_new :: "'a Scope" where
  "Scope_new = Scope Map.empty Map.empty None"

definition set_containing_scope :: "'a Scope \<Rightarrow> 'a Scope \<Rightarrow> 'a Scope" where
  "set_containing_scope c s = Scope (m_table s) (o_table s) (Some c)"

text \<open>
  \<^verbatim>\<open>get\<close>, \<^verbatim>\<open>replace\<close>, \<^verbatim>\<open>contains\<close> and \<^verbatim>\<open>pop\<close> look the name up in both tables and
  assert that both lookups agree on whether it is there; from then on \<^verbatim>\<open>get\<close> and
  \<^verbatim>\<open>contains\<close> read \<^verbatim>\<open>o_table\<close> only. (The second assertion,
  \<^verbatim>\<open>m_iter->first == o_iter->first\<close>, compares the key both lookups searched for and
  cannot fail.)
\<close>

fun Scope_get :: "'a Scope \<Rightarrow> string \<Rightarrow> error + 'a" where
  "Scope_get (Scope m ot cs) name =
     (if (m name = None) \<noteq> (ot name = None) then Inl Internal_error
      else if ot name = None \<or> s_empty (the (ot name)) then
        (case cs of
           Some c \<Rightarrow> Scope_get c name
         | None \<Rightarrow> Inl Internal_error)
      else Inr (SmallStack_top (the (ot name))))"

fun Scope_contains :: "'a Scope \<Rightarrow> string \<Rightarrow> error + bool" where
  "Scope_contains (Scope m ot cs) name =
     (if (m name = None) \<noteq> (ot name = None) then Inl Internal_error
      else if ot name = None \<or> s_empty (the (ot name)) then
        (case cs of
           Some c \<Rightarrow> Scope_contains c name
         | None \<Rightarrow> Inr False)
      else Inr True)"

definition Scope_replace :: "string \<Rightarrow> 'a \<Rightarrow> 'a Scope \<Rightarrow> error + 'a Scope" where
  "Scope_replace name v s =
     (if (m_table s name = None) \<noteq> (o_table s name = None) then Inl Internal_error
      else if o_table s name = None \<or> s_empty (the (o_table s name)) then Inl Internal_error
      else Inr (Scope ((m_table s)(name \<mapsto> SmallStack_set_top v (the (m_table s name))))
                      ((o_table s)(name \<mapsto> SmallStack_set_top v (the (o_table s name))))
                      (containing_scope s)))"

definition table_push ::
  "string \<Rightarrow> 'a \<Rightarrow> (string \<Rightarrow> ('a::default) SmallStack option) \<Rightarrow> (string \<Rightarrow> 'a SmallStack option)" where
  \<comment> \<open>\<^verbatim>\<open>table[name].push(value)\<close>: \<^verbatim>\<open>operator[]\<close> inserts a fresh stack for a new name\<close>
  "table_push name v t =
     t(name \<mapsto> SmallStack_push v (case t name of None \<Rightarrow> SmallStack_new | Some st \<Rightarrow> st))"

definition Scope_push :: "string \<Rightarrow> ('a::default) \<Rightarrow> 'a Scope \<Rightarrow> 'a Scope" where
  "Scope_push name v s =
     Scope (table_push name v (m_table s)) (table_push name v (o_table s)) (containing_scope s)"

definition table_pop ::
  "string \<Rightarrow> (string \<Rightarrow> ('a::default) SmallStack option) \<Rightarrow> (string \<Rightarrow> 'a SmallStack option)" where
  \<comment> \<open>\<^verbatim>\<open>iter->second.pop(); if (iter->second.empty()) table.erase(iter);\<close> for a name that is there\<close>
  "table_pop name t =
     (let st = SmallStack_pop (the (t name))
      in if s_empty st then t(name := None) else t(name \<mapsto> st))"

definition Scope_pop :: "string \<Rightarrow> ('a::default) Scope \<Rightarrow> error + 'a Scope" where
  "Scope_pop name s =
     (if (m_table s name = None) \<noteq> (o_table s name = None) then Inl Internal_error
      else if m_table s name = None then Inl Internal_error
      else Inr (Scope (table_pop name (m_table s)) (table_pop name (o_table s))
                      (containing_scope s)))"

definition Scope_swap :: "'a Scope \<Rightarrow> 'a Scope \<Rightarrow> 'a Scope \<times> 'a Scope" where
  "Scope_swap s other = (other, s)"

text \<open>A client's use of a scope: a sequence of pushes, pops and replacements, stopping
  at the first one that aborts.\<close>

datatype 'a scope_op = Push string 'a | Pop string | Replace string 'a

fun scope_step :: "('a::default) scope_op \<Rightarrow> 'a Scope \<Rightarrow> error + 'a Scope" where
  "scope_step (Push name v) s = Inr (Scope_push name v s)"
| "scope_step (Pop name) s = Scope_pop name s"
| "scope_step (Replace name v) s = Scope_replace name v s"

fun scope_run :: "('a::default) scope_op list \<Rightarrow> 'a Scope \<Rightarrow> error + 'a Scope" where
  "scope_run [] s = Inr s"
| "scope_run (x # xs) s =
     (case scope_step x s of Inl e \<Rightarrow> Inl e | Inr s' \<Rightarrow> scope_run xs s')"

text \<open>The two tables hold the same stacks under the same names, and no stored stack
  is empty.\<close>

definition tables_agree :: "'a Scope \<Rightarrow> bool" where
  "tables_agree s \<longleftrightarrow>
     m_table s = o_table s \<and> (\<forall>name st. o_table s name = Some st \<longrightarrow> \<not> s_empty st)"

instantiation int :: default
begin
definition default_int :: int where "default_int = 0"
instance ..
end

section \<open>The expression language the pass works on\<close>

text \<open>
  The pass differentiates front-end expressions. Their node classes (\<^verbatim>\<open>IR.h\<close>), types
  (\<^verbatim>\<open>Type.h\<close>) and reduction domains (\<^verbatim>\<open>Reduction.h\<close>) are declared outside the files
  at hand; the datatypes below list the scalar arithmetic expression nodes (types of
  integer, unsigned and floating-point code) with the fields that \<^verbatim>\<open>Derivative.cpp\<close>
  reads. A floating-point immediate is a rational number here.
  \<^verbatim>\<open>Min\<close>, \<^verbatim>\<open>Max\<close>, \<^verbatim>\<open>Not\<close> and \<^verbatim>\<open>Let\<close> carry the suffix \<open>_expr\<close>.

  A \<^verbatim>\<open>ReductionDomain\<close> is a handle to shared contents: a \<^verbatim>\<open>Variable\<close> keeps the
  address of the contents of its reduction domain (none when the domain is undefined),
  which is what \<^verbatim>\<open>ReductionDomain::Compare\<close> orders by, and the contents (the
  reduction variables with their \<^verbatim>\<open>min\<close> and \<^verbatim>\<open>extent\<close>, and the predicate, whose
  variables point back at the domain) live in a store. A \<^verbatim>\<open>Call\<close> keeps its return type,
  name, arguments, call type, the callee (\<^verbatim>\<open>func\<close>, an address, absent for images and
  externs) and \<^verbatim>\<open>value_index\<close>.
\<close>

datatype halide_type_code_t =
  halide_type_int | halide_type_uint | halide_type_float

datatype Type = Type (code: halide_type_code_t) (bits: nat)

definition is_float :: "Type \<Rightarrow> bool" where
  "is_float t \<longleftrightarrow> code t = halide_type_float"

definition Float32 :: Type where "Float32 = Type halide_type_float 32"
definition Int32 :: Type where "Int32 = Type halide_type_int 32"
definition Bool :: Type where "Bool = Type halide_type_uint 1"

datatype CallType =
  Image | Extern | ExternCPlusPlus | PureExtern | Halide | Intrinsic | PureIntrinsic

type_synonym ptr = nat

datatype Expr =
    IntImm Type int
  | UIntImm Type nat
  | FloatImm Type rat
  | Cast Type Expr
  | Variable Type string "ptr option"
  | Add Expr Expr
  | Sub Expr Expr
  | Mul Expr Expr
  | Div Expr Expr
  | Mod Expr Expr
  | Min_expr Expr Expr
  | Max_expr Expr Expr
  | EQ Expr Expr
  | NE Expr Expr
  | LT Expr Expr
  | LE Expr Expr
  | GT Expr Expr
  | GE Expr Expr
  | And Expr Expr
  | Or Expr Expr
  | Not_expr Expr
  | Select Expr Expr Expr
  | Let_expr string Expr Expr
  | Call Type string "Expr list" CallType "ptr option" nat

record ReductionVariable =
  rv_var :: string
  rv_min :: Expr
  rv_extent :: Expr

record ReductionDomainContents =
  rd_domain :: "ReductionVariable list"
  rd_predicate :: Expr

type_synonym rdom_store = "ptr \<Rightarrow> ReductionDomainContents option"

text \<open>Every node stores its type; the type of an operator node is the one its
  \<^verbatim>\<open>make\<close> function takes from the operands.\<close>

fun type_of :: "Expr \<Rightarrow> Type" where
  "type_of (IntImm t v) = t"
| "type_of (UIntImm t v) = t"
| "type_of (FloatImm t v) = t"
| "type_of (Cast t e) = t"
| "type_of (Variable t n r) = t"
| "type_of (Add a b) = type_of a"
| "type_of (Sub a b) = type_of a"
| "type_of (Mul a b) = type_of a"
| "type_of (Div a b) = type_of a"
| "type_of (Mod a b) = type_of a"
| "type_of (Min_expr a b) = type_of a"
| "type_of (Max_expr a b) = type_of a"
| "type_of (EQ a b) = Bool"
| "type_of (NE a b) = Bool"
| "type_of (LT a b) = Bool"
| "type_of (LE a b) = Bool"
| "type_of (GT a b) = Bool"
| "type_of (GE a b) = Bool"
| "type_of (And a b) = Bool"
| "type_of (Or a b) = Bool"
| "type_of (Not_expr a) = Bool"
| "type_of (Select c a b) = type_of a"
| "type_of (Let_expr n v b) = type_of b"
| "type_of (Call t n args ct f i) = t"

text \<open>
  The adjoint map is keyed by node address (\<^verbatim>\<open>const BaseExprNode *\<close>), so the
  expressions of a function definition, which the pass traverses, are kept with the
  address of every node: an \<open>IRNode\<close> is a handle (\<^verbatim>\<open>Expr\<close>) into a definition,
  \<open>get\<close> is the address it holds, and a node shared by two parents appears with the same
  address under both. \<open>expr_of\<close> forgets the addresses. Expressions that the pass builds
  are plain \<open>Expr\<close> values: their nodes' addresses are never used as keys.
\<close>

datatype IRNode =
    IntImm_at ptr Type int
  | UIntImm_at ptr Type nat
  | FloatImm_at ptr Type rat
  | Cast_at ptr Type IRNode
  | Variable_at ptr Type string "ptr option"
  | Add_at ptr IRNode IRNode
  | Sub_at ptr IRNode IRNode
  | Mul_at ptr IRNode IRNode
  | Div_at ptr IRNode IRNode
  | Mod_at ptr IRNode IRNode
  | Min_at ptr IRNode IRNode
  | Max_at ptr IRNode IRNode
  | EQ_at ptr IRNode IRNode
  | NE_at ptr IRNode IRNode
  | LT_at ptr IRNode IRNode
  | LE_at ptr IRNode IRNode
  | GT_at ptr IRNode IRNode
  | GE_at ptr IRNode IRNode
  | And_at ptr IRNode IRNode
  | Or_at ptr IRNode IRNode
  | Not_at ptr IRNode
  | Select_at ptr IRNode IRNode IRNode
  | Let_at ptr string IRNode IRNode
  | Call_at ptr Type string "IRNode list" CallType "ptr option" nat

fun get :: "IRNode \<Rightarrow> ptr" where
  "get (IntImm_at p t v) = p"
| "get (UIntImm_at p t v) = p"
| "get (FloatImm_at p t v) = p"
| "get (Cast_at p t e) = p"
| "get (Variable_at p t n r) = p"
| "get (Add_at p a b) = p"
| "get (Sub_at p a b) = p"
| "get (Mul_at p a b) = p"
| "get (Div_at p a b) = p"
| "get (Mod_at p a b) = p"
| "get (Min_at p a b) = p"
| "get (Max_at p a b) = p"
| "get (EQ_at p a b) = p"
| "get (NE_at p a b) = p"
| "get (LT_at p a b) = p"
| "get (LE_at p a b) = p"
| "get (GT_at p a b) = p"
| "get (GE_at p a b) = p"
| "get (And_at p a b) = p"
| "get (Or_at p a b) = p"
| "get (Not_at p a) = p"
| "get (Select_at p c a b) = p"
| "get (Let_at p n v b) = p"
| "get (Call_at p t n args ct f i) = p"

fun expr_of :: "IRNode \<Rightarrow> Expr" where
  "expr_of (IntImm_at p t v) = IntImm t v"
| "expr_of (UIntImm_at p t v) = UIntImm t v"
| "expr_of (FloatImm_at p t v) = FloatImm t v"
| "expr_of (Cast_at p t e) = Cast t (expr_of e)"
| "expr_of (Variable_at p t n r) = Variable t n r"
| "expr_of (Add_at p a b) = Add (expr_of a) (expr_of b)"
| "expr_of (Sub_at p a b) = Sub (expr_of a) (expr_of b)"
| "expr_of (Mul_at p a b) = Mul (expr_of a) (expr_of b)"
| "expr_of (Div_at p a b) = Div (expr_of a) (expr_of b)"
| "expr_of (Mod_at p a b) = Mod (expr_of a) (expr_of b)"
| "expr_of (Min_at p a b) = Min_expr (expr_of a) (expr_of b)"
| "expr_of (Max_at p a b) = Max_expr (expr_of a) (expr_of b)"
| "expr_of (EQ_at p a b) = EQ (expr_of a) (expr_of b)"
| "expr_of (NE_at p a b) = NE (expr_of a) (expr_of b)"
| "expr_of (LT_at p a b) = LT (expr_of a) (expr_of b)"
| "expr_of (LE_at p a b) = LE (expr_of a) (expr_of b)"
| "expr_of (GT_at p a b) = GT (expr_of a) (expr_of b)"
| "expr_of (GE_at p a b) = GE (expr_of a) (expr_of b)"
| "expr_of (And_at p a b) = And (expr_of a) (expr_of b)"
| "expr_of (Or_at p a b) = Or (expr_of a) (expr_of b)"
| "expr_of (Not_at p a) = Not_expr (expr_of a)"
| "expr_of (Select_at p c a b) = Select (expr_of c) (expr_of a) (expr_of b)"
| "expr_of (Let_at p n v b) = Let_expr n (expr_of v) (expr_of b)"
| "expr_of (Call_at p t n args ct f i) = Call t n (map expr_of args) ct f i"

section \<open>Building expressions\<close>

text \<open>
  Modelled from the spec: the expression builders of \<^verbatim>\<open>IROperator.h\<close>, which
  \<^verbatim>\<open>Derivative.cpp\<close> calls and which are not among the files at hand (spec, section 3:
  constants, binary arithmetic and comparison, select, let, cast, call). On operands of
  one type each builder makes the node it is named after; the coercions they apply to
  operands of different types are left out. \<^verbatim>\<open>make_const(t, v)\<close> is the immediate of
  type \<open>t\<close>; unary minus is \<^verbatim>\<open>make_zero(t) - a\<close>; \<^verbatim>\<open>cast(t, a)\<close> returns \<open>a\<close> itself when
  it has type \<open>t\<close>; the math builders call the extern named after the operand's float
  width.
\<close>

definition make_const :: "Type \<Rightarrow> rat \<Rightarrow> Expr" where
  "make_const t v =
     (case code t of
        halide_type_int \<Rightarrow> IntImm t \<lfloor>v\<rfloor>
      | halide_type_uint \<Rightarrow> UIntImm t (nat \<lfloor>v\<rfloor>)
      | halide_type_float \<Rightarrow> FloatImm t v)"

definition const_true :: Expr where
  "const_true = UIntImm Bool 1"

definition const_false :: Expr where
  "const_false = UIntImm Bool 0"

definition neg :: "Expr \<Rightarrow> Expr" where
  "neg a = Sub (make_const (type_of a) 0) a"

definition cast :: "Type \<Rightarrow> Expr \<Rightarrow> Expr" where
  "cast t a = (if type_of a = t then a else Cast t a)"

definition float_suffix :: "Type \<Rightarrow> string" where
  "float_suffix t =
     (if t = Type halide_type_float 64 then ''_f64''
      else if t = Type halide_type_float 16 then ''_f16'' else ''_f32'')"

definition math_type :: "Type \<Rightarrow> Type" where
  "math_type t =
     (if t = Type halide_type_float 64 \<or> t = Type halide_type_float 16 then t else Float32)"

definition math1 :: "string \<Rightarrow> Expr \<Rightarrow> Expr" where
  \<comment> \<open>\<^verbatim>\<open>exp(x)\<close>, \<^verbatim>\<open>cos(x)\<close>, ...: a pure extern call on the operand, cast to float\<close>
  "math1 f x =
     Call (math_type (type_of x)) (f @ float_suffix (type_of x))
          [cast (math_type (type_of x)) x] PureExtern None 0"

definition fast_math1 :: "string \<Rightarrow> Expr \<Rightarrow> Expr" where
  \<comment> \<open>\<^verbatim>\<open>fast_inverse(x)\<close>, \<^verbatim>\<open>fast_inverse_sqrt(x)\<close>: single precision only\<close>
  "fast_math1 f x = Call (type_of x) (f @ ''_f32'') [x] PureExtern None 0"

definition math2 :: "string \<Rightarrow> Expr \<Rightarrow> Expr \<Rightarrow> Expr" where
  \<comment> \<open>\<^verbatim>\<open>pow(x, y)\<close>\<close>
  "math2 f x y =
     Call (math_type (type_of x)) (f @ float_suffix (type_of x))
          [cast (math_type (type_of x)) x, cast (math_type (type_of x)) y] PureExtern None 0"

section \<open>What an expression evaluates to\<close>

text \<open>
  Modelled from the spec: the value of an expression at a point (spec, sections 3 and 8:
  the derivative rules are checked against the forward expression at sample points).
  Values are rational numbers, a condition holding is 1 and failing is 0; the
  environment gives the variables their values. What a cast, a division, a remainder
  and a call compute depends on types and on the callee, and is taken from the
  interpretation \<open>I\<close>.
\<close>

record interp =
  cast_sem :: "Type \<Rightarrow> rat \<Rightarrow> rat"
  div_sem :: "Type \<Rightarrow> rat \<Rightarrow> rat \<Rightarrow> rat"
  mod_sem :: "Type \<Rightarrow> rat \<Rightarrow> rat \<Rightarrow> rat"
  call_sem :: "string \<Rightarrow> CallType \<Rightarrow> nat \<Rightarrow> rat list \<Rightarrow> rat"

definition exact_interp :: interp where
  \<comment> \<open>an interpretation for concrete evaluations: exact division, casts that keep the
     value, remainders and calls that return 0\<close>
  "exact_interp =
     \<lparr>cast_sem = (\<lambda>t v. v), div_sem = (\<lambda>t a b. a / b), mod_sem = (\<lambda>t a b. 0),
      call_sem = (\<lambda>n ct i vs. 0)\<rparr>"

definition truth :: "bool \<Rightarrow> rat" where
  "truth b = (if b then 1 else 0)"

fun eval :: "interp \<Rightarrow> (string \<Rightarrow> rat) \<Rightarrow> Expr \<Rightarrow> rat" where
  "eval I env (IntImm t v) = of_int v"
| "eval I env (UIntImm t v) = of_nat v"
| "eval I env (FloatImm t v) = v"
| "eval I env (Cast t e) = cast_sem I t (eval I env e)"
| "eval I env (Variable t n r) = env n"
| "eval I env (Add a b) = eval I env a + eval I env b"
| "eval I env (Sub a b) = eval I env a - eval I env b"
| "eval I env (Mul a b) = eval I env a * eval I env b"
| "eval I env (Div a b) = div_sem I (type_of a) (eval I env a) (eval I env b)"
| "eval I env (Mod a b) = mod_sem I (type_of a) (eval I env a) (eval I env b)"
| "eval I env (Min_expr a b) = min (eval I env a) (eval I env b)"
| "eval I env (Max_expr a b) = max (eval I env a) (eval I env b)"
| "eval I env (EQ a b) = truth (eval I env a = eval I env b)"
| "eval I env (NE a b) = truth (eval I env a \<noteq> eval I env b)"
| "eval I env (LT a b) = truth (eval I env a < eval I env b)"
| "eval I env (LE a b) = truth (eval I env a \<le> eval I env b)"
| "eval I env (GT a b) = truth (eval I env a > eval I env b)"
| "eval I env (GE a b) = truth (eval I env a \<ge> eval I env b)"
| "eval I env (And a b) = truth (eval I env a \<noteq> 0 \<and> eval I env b \<noteq> 0)"
| "eval I env (Or a b) = truth (eval I env a \<noteq> 0 \<or> eval I env b \<noteq> 0)"
| "eval I env (Not_expr a) = truth (eval I env a = 0)"
| "eval I env (Select c a b) = (if eval I env c \<noteq> 0 then eval I env a else eval I env b)"
| "eval I env (Let_expr n v b) = eval I (env(n := eval I env v)) b"
| "eval I env (Call t n args ct f i) = call_sem I n ct i (map (eval I env) args)"

section \<open>Functions, the external collaborators and the visitor's state\<close>

text \<open>
  A \<^verbatim>\<open>Func\<close> as the pass reads it: its name, the address of its contents (what
  \<^verbatim>\<open>same_as\<close> compares), the pure variables, the values of the pure definition and the
  update definitions in order, each with its left-hand-side arguments, its values and
  the reduction variables of its schedule (\<^verbatim>\<open>func.rvars(update_id)\<close>).
\<close>

datatype Interval = Interval (i_min: Expr) (i_max: Expr)

type_synonym Box = "Interval list"

type_synonym FuncKey = "string \<times> int"

record Definition =
  d_args :: "Expr list"
  d_values :: "IRNode list"
  d_rvars :: "ReductionVariable list"

record Function =
  f_name :: string
  f_contents :: ptr
  f_args :: "string list"
  f_values :: "IRNode list"
  f_updates :: "Definition list"

definition dimensions :: "Function \<Rightarrow> nat" where
  "dimensions f = length (f_args f)"

definition num_update_definitions :: "Function \<Rightarrow> nat" where
  "num_update_definitions f = length (f_updates f)"

text \<open>
  \<^verbatim>\<open>Interval()\<close>, the value a \<^verbatim>\<open>Scope<Interval>\<close> stores in a stack it empties, is the
  interval from \<^verbatim>\<open>neg_inf\<close> to \<^verbatim>\<open>pos_inf\<close>.
\<close>

instantiation Interval :: default
begin
definition default_Interval :: Interval where
  "default_Interval = Interval (Variable Int32 ''neg_inf'' None) (Variable Int32 ''pos_inf'' None)"
instance ..
end

text \<open>
  The functions that \<^verbatim>\<open>Derivative.cpp\<close> calls and that are defined elsewhere
  (the simplifier and prover, bounds of an expression, the helpers of
  \<^verbatim>\<open>DerivativeUtils.h\<close>) are parameters of the model, collected in one record.
  \<open>is_calling_function_named\<close> is the overload of \<^verbatim>\<open>is_calling_function\<close> that takes a
  function name, \<open>is_const_value\<close> the overload of \<^verbatim>\<open>is_const\<close> that takes a value,
  \<open>substitute_expr\<close> the overload of \<^verbatim>\<open>substitute\<close> that replaces an expression, and
  \<open>realization_funcs\<close> the functions that \<^verbatim>\<open>find_transitive_calls\<close> finds from the output,
  in the order that \<^verbatim>\<open>realization_order\<close> gives them (producers first).
\<close>

record Externals =
  simplify :: "Expr \<Rightarrow> Expr"
  can_prove :: "Expr \<Rightarrow> bool"
  is_const :: "Expr \<Rightarrow> bool"
  is_const_value :: "Expr \<Rightarrow> int \<Rightarrow> bool"
  extract_rdom :: "Expr \<Rightarrow> ptr option"
  bounds_of_expr_in_scope :: "Expr \<Rightarrow> Interval Scope \<Rightarrow> Interval"
  boxes_overlap :: "Box \<Rightarrow> Box \<Rightarrow> bool"
  sort_expressions :: "IRNode \<Rightarrow> IRNode list"
  is_calling_function_named :: "string \<Rightarrow> Expr \<Rightarrow> (string \<times> IRNode) list \<Rightarrow> bool"
  is_calling_function :: "Expr \<Rightarrow> (string \<times> IRNode) list \<Rightarrow> bool"
  and_condition_over_domain :: "Expr \<Rightarrow> Interval Scope \<Rightarrow> Expr"
  add_let_expression :: "Expr \<Rightarrow> (string \<times> IRNode) list \<Rightarrow> string list \<Rightarrow> Expr"
  substitute_in_all_lets :: "Expr \<Rightarrow> Expr"
  substitute_expr :: "Expr \<Rightarrow> Expr \<Rightarrow> Expr \<Rightarrow> Expr"
  realization_funcs :: "Function \<Rightarrow> Function list"

text \<open>
  The members of \<^verbatim>\<open>ReverseAccumulationVisitor\<close>. \<open>expr_adjoints\<close> is the map from node
  address to accumulated adjoint, kept as the list of its entries in key order with the
  node beside its address (the C++ reads the node through the key);
  \<open>let_var_mapping\<close> maps a let name to its value node.
\<close>

record Visitor =
  expr_adjoints :: "(IRNode \<times> Expr) list"
  adjoint_funcs :: "(FuncKey \<times> Function) list"
  let_var_mapping :: "(string \<times> IRNode) list"
  let_variables :: "string list"
  func_bounds :: "(string \<times> Box) list"
  current_func :: Function
  current_update_id :: int
  is_forward_overwrite_detection_phase :: bool
  is_self_referencing_phase :: bool
  is_current_non_overwriting_scan :: bool
  self_reference_adjoint :: "Expr list"
  self_reference_args :: "Expr list list"

definition Visitor_new :: "Function \<Rightarrow> Visitor" where
  \<comment> \<open>a freshly constructed visitor, about to work on \<open>f\<close>\<close>
  "Visitor_new f =
     \<lparr>expr_adjoints = [], adjoint_funcs = [], let_var_mapping = [], let_variables = [],
      func_bounds = [], current_func = f, current_update_id = 0,
      is_forward_overwrite_detection_phase = False, is_self_referencing_phase = False,
      is_current_non_overwriting_scan = False, self_reference_adjoint = [],
      self_reference_args = []\<rparr>"

fun adj_find :: "(IRNode \<times> Expr) list \<Rightarrow> ptr \<Rightarrow> Expr option" where
  "adj_find [] p = None"
| "adj_find ((n, e) # m) p = (if get n = p then Some e else adj_find m p)"

fun adj_set :: "IRNode \<Rightarrow> Expr \<Rightarrow> (IRNode \<times> Expr) list \<Rightarrow> (IRNode \<times> Expr) list" where
  \<comment> \<open>\<^verbatim>\<open>expr_adjoints[k] = v\<close>\<close>
  "adj_set k v [] = [(k, v)]"
| "adj_set k v ((n, e) # m) =
     (if get k = get n then (n, v) # m
      else if get k < get n then (k, v) # (n, e) # m
      else (n, e) # adj_set k v m)"

section \<open>accumulate and the visit methods\<close>

definition plus_assign :: "Expr \<Rightarrow> Expr \<Rightarrow> Expr" where
  \<comment> \<open>\<^verbatim>\<open>a += b\<close> on expressions: \<^verbatim>\<open>a = Add::make(a, cast(a.type(), b))\<close>\<close>
  "plus_assign a b = Add a (cast (type_of a) b)"

definition accumulate :: "IRNode \<Rightarrow> Expr \<Rightarrow> Visitor \<Rightarrow> Visitor" where
  "accumulate stub adjoint s =
     (case adj_find (expr_adjoints s) (get stub) of
        None \<Rightarrow> s\<lparr>expr_adjoints := adj_set stub adjoint (expr_adjoints s)\<rparr>
      | Some old \<Rightarrow>
          s\<lparr>expr_adjoints := adj_set stub (plus_assign old adjoint) (expr_adjoints s)\<rparr>)"

definition adjoint_of :: "IRNode \<Rightarrow> Visitor \<Rightarrow> error + Expr" where
  \<comment> \<open>\<^verbatim>\<open>assert(expr_adjoints.find(op) != expr_adjoints.end()); Expr adjoint = expr_adjoints[op];\<close>\<close>
  "adjoint_of op s =
     (case adj_find (expr_adjoints s) (get op) of
        None \<Rightarrow> Inl Assert_failed
      | Some adjoint \<Rightarrow> Inr adjoint)"

definition visit_Cast :: "IRNode \<Rightarrow> Type \<Rightarrow> IRNode \<Rightarrow> Visitor \<Rightarrow> error + Visitor" where
  "visit_Cast op t v s =
     (case adjoint_of op s of
        Inl e \<Rightarrow> Inl e
      | Inr adjoint \<Rightarrow>
          if is_float t then Inr (accumulate v (cast (type_of (expr_of v)) adjoint) s)
          else Inr (accumulate v (make_const (type_of (expr_of v)) 0) s))"

definition visit_Variable :: "IRNode \<Rightarrow> string \<Rightarrow> Visitor \<Rightarrow> error + Visitor" where
  "visit_Variable op name s =
     (case adjoint_of op s of
        Inl e \<Rightarrow> Inl e
      | Inr adjoint \<Rightarrow>
          (case map_of (let_var_mapping s) name of
             None \<Rightarrow> Inr s
           | Some v \<Rightarrow> Inr (accumulate v (Let_expr name (expr_of v) adjoint) s)))"

definition visit_Add :: "IRNode \<Rightarrow> IRNode \<Rightarrow> IRNode \<Rightarrow> Visitor \<Rightarrow> error + Visitor" where
  "visit_Add op a b s =
     (case adjoint_of op s of
        Inl e \<Rightarrow> Inl e
      | Inr adjoint \<Rightarrow> Inr (accumulate b adjoint (accumulate a adjoint s)))"

definition visit_Sub :: "IRNode \<Rightarrow> IRNode \<Rightarrow> IRNode \<Rightarrow> Visitor \<Rightarrow> error + Visitor" where
  "visit_Sub op a b s =
     (case adjoint_of op s of
        Inl e \<Rightarrow> Inl e
      | Inr adjoint \<Rightarrow> Inr (accumulate b (neg adjoint) (accumulate a adjoint s)))"

definition visit_Mul :: "IRNode \<Rightarrow> IRNode \<Rightarrow> IRNode \<Rightarrow> Visitor \<Rightarrow> error + Visitor" where
  "visit_Mul op a b s =
     (case adjoint_of op s of
        Inl e \<Rightarrow> Inl e
      | Inr adjoint \<Rightarrow>
          Inr (accumulate b (Mul adjoint (expr_of a))
                (accumulate a (Mul adjoint (expr_of b)) s)))"

definition visit_Div :: "IRNode \<Rightarrow> IRNode \<Rightarrow> IRNode \<Rightarrow> Visitor \<Rightarrow> error + Visitor" where
  "visit_Div op a b s =
     (case adjoint_of op s of
        Inl e \<Rightarrow> Inl e
      | Inr adjoint \<Rightarrow>
          Inr (accumulate b (Div (Mul (neg adjoint) (expr_of a)) (Mul (expr_of b) (expr_of b)))
                (accumulate a (Div adjoint (expr_of b)) s)))"

definition visit_Min :: "IRNode \<Rightarrow> IRNode \<Rightarrow> IRNode \<Rightarrow> Visitor \<Rightarrow> error + Visitor" where
  "visit_Min op a b s =
     (case adjoint_of op s of
        Inl e \<Rightarrow> Inl e
      | Inr adjoint \<Rightarrow>
          Inr (accumulate b
                 (Select (LE (expr_of b) (expr_of a)) adjoint (make_const (type_of adjoint) 0))
                (accumulate a
                   (Select (LE (expr_of a) (expr_of b)) adjoint (make_const (type_of adjoint) 0))
                   s)))"

definition visit_Max :: "IRNode \<Rightarrow> IRNode \<Rightarrow> IRNode \<Rightarrow> Visitor \<Rightarrow> error + Visitor" where
  "visit_Max op a b s =
     (case adjoint_of op s of
        Inl e \<Rightarrow> Inl e
      | Inr adjoint \<Rightarrow>
          Inr (accumulate b
                 (Select (GE (expr_of b) (expr_of a)) adjoint (make_const (type_of adjoint) 0))
                (accumulate a
                   (Select (GE (expr_of a) (expr_of b)) adjoint (make_const (type_of adjoint) 0))
                   s)))"

definition visit_Let :: "IRNode \<Rightarrow> IRNode \<Rightarrow> Visitor \<Rightarrow> error + Visitor" where
  "visit_Let op body s =
     (case adjoint_of op s of
        Inl e \<Rightarrow> Inl e
      | Inr adjoint \<Rightarrow> Inr (accumulate body adjoint s))"

definition visit_Select ::
  "IRNode \<Rightarrow> IRNode \<Rightarrow> IRNode \<Rightarrow> IRNode \<Rightarrow> Visitor \<Rightarrow> error + Visitor" where
  "visit_Select op condition true_value false_value s =
     (case adjoint_of op s of
        Inl e \<Rightarrow> Inl e
      | Inr adjoint \<Rightarrow>
          Inr (accumulate false_value
                 (Select (expr_of condition) (make_const (type_of adjoint) 0) adjoint)
                (accumulate true_value
                   (Select (expr_of condition) adjoint (make_const (type_of adjoint) 0))
                   s)))"

definition is_float_extern :: "string \<Rightarrow> string \<Rightarrow> bool" where
  "is_float_extern op_name func_name \<longleftrightarrow>
     op_name = func_name @ ''_f16'' \<or> op_name = func_name @ ''_f32'' \<or>
     op_name = func_name @ ''_f64''"

definition is_extern :: "CallType \<Rightarrow> bool" where
  "is_extern ct \<longleftrightarrow> ct = Extern \<or> ct = ExternCPlusPlus \<or> ct = PureExtern"

definition is_intrinsic :: "CallType \<Rightarrow> bool" where
  "is_intrinsic ct \<longleftrightarrow> ct = Intrinsic \<or> ct = PureIntrinsic"

text \<open>
  The branches of \<^verbatim>\<open>visit(const Call *)\<close> for externs and intrinsics, each as the list
  of its \<^verbatim>\<open>accumulate\<close> calls in order. \<open>need\<close> stands for the reads \<^verbatim>\<open>op->args[i]\<close>:
  past the end of the argument vector they are undefined in C++, and abort here.
\<close>

definition need :: "nat \<Rightarrow> IRNode list \<Rightarrow> 'a \<Rightarrow> error + 'a" where
  "need n args r = (if n \<le> length args then Inr r else Inl Internal_error)"

definition extern_adjoints ::
  "string \<Rightarrow> Type \<Rightarrow> Expr \<Rightarrow> IRNode list \<Rightarrow> error + (IRNode \<times> Expr) list" where
  "extern_adjoints name t adjoint args =
     (let a0 = args ! 0; x = expr_of a0; a1 = args ! 1; y = expr_of a1;
          one = make_const t 1; zero = make_const t 0
      in
      if is_float_extern name ''exp'' then
        need 1 args [(a0, Mul adjoint (math1 ''exp'' x))]
      else if is_float_extern name ''log'' then
        need 1 args [(a0, Div adjoint x)]
      else if is_float_extern name ''sin'' then
        need 1 args [(a0, Mul adjoint (math1 ''cos'' x))]
      else if is_float_extern name ''asin'' then
        need 1 args [(a0, Div adjoint (math1 ''sqrt'' (Sub one (Mul x x))))]
      else if is_float_extern name ''cos'' then
        need 1 args [(a0, Mul (neg adjoint) (math1 ''sin'' x))]
      else if is_float_extern name ''acos'' then
        need 1 args [(a0, Div (neg adjoint) (math1 ''sqrt'' (Sub one (Mul x x))))]
      else if is_float_extern name ''tan'' then
        need 1 args [(a0, Div adjoint (Mul (math1 ''cos'' x) (math1 ''cos'' x)))]
      else if is_float_extern name ''atan'' then
        need 1 args [(a0, Div adjoint (Add one (Mul x x)))]
      else if is_float_extern name ''atan2'' then
        need 2 args
          [(a0, Div (Mul adjoint y) (Add (Mul x x) (Mul y y))),
           (a1, Div (Mul (neg adjoint) x) (Add (Mul x x) (Mul y y)))]
      else if is_float_extern name ''sinh'' then
        need 1 args [(a0, Mul adjoint (math1 ''cosh'' x))]
      else if is_float_extern name ''asinh'' then
        need 1 args [(a0, Div adjoint (math1 ''sqrt'' (Add one (Mul x x))))]
      else if is_float_extern name ''cosh'' then
        need 1 args [(a0, Mul adjoint (math1 ''sinh'' x))]
      else if is_float_extern name ''acosh'' then
        need 1 args
          [(a0, Div adjoint (Mul (math1 ''sqrt'' (Sub x one)) (math1 ''sqrt'' (Add x one))))]
      else if is_float_extern name ''tanh'' then
        need 1 args [(a0, Div adjoint (Mul (math1 ''cosh'' x) (math1 ''cosh'' x)))]
      else if is_float_extern name ''atanh'' then
        need 1 args [(a0, Div adjoint (Sub one (Mul x x)))]
      else if is_float_extern name ''ceil'' then need 1 args [(a0, zero)]
      else if is_float_extern name ''floor'' then need 1 args [(a0, zero)]
      else if is_float_extern name ''round'' then need 1 args [(a0, zero)]
      else if is_float_extern name ''trunc'' then need 1 args [(a0, zero)]
      else if is_float_extern name ''sqrt'' then
        need 1 args [(a0, Div (Mul adjoint (make_const t (1 / 2))) (math1 ''sqrt'' x))]
      else if is_float_extern name ''pow'' then
        need 2 args
          [(a0, Mul (Mul adjoint y) (math2 ''pow'' x (Sub y one))),
           (a1, Mul (Mul adjoint (math2 ''pow'' x y)) (math1 ''log'' x))]
      else if is_float_extern name ''fast_inverse'' then
        need 1 args
          [(a0, Mul (Mul (neg adjoint) (fast_math1 ''fast_inverse'' x)) (fast_math1 ''fast_inverse'' x))]
      else if is_float_extern name ''fast_inverse_sqrt'' then
        need 1 args
          [(a0, Mul (Mul (Mul (Mul (make_const t (- 1 / 2)) adjoint)
                              (fast_math1 ''fast_inverse_sqrt'' x))
                         (fast_math1 ''fast_inverse_sqrt'' x))
                    (fast_math1 ''fast_inverse_sqrt'' x))]
      else if name = ''halide_print'' then need 1 args [(a0, zero)]
      else Inl Internal_error)"

definition intrinsic_adjoints ::
  "string \<Rightarrow> Type \<Rightarrow> Expr \<Rightarrow> IRNode list \<Rightarrow> error + (IRNode \<times> Expr) list" where
  "intrinsic_adjoints name t adjoint args =
     (let a0 = args ! 0; x = expr_of a0; a1 = args ! 1; y = expr_of a1;
          a2 = args ! 2; w = expr_of a2
      in
      if name = ''abs'' then
        need 1 args
          [(a0, Mul adjoint (Select (GT x (make_const (type_of x) 0))
                                    (make_const t 1) (make_const t (- 1))))]
      else if name = ''lerp'' then
        need 3 args
          [(a0, Mul adjoint (Sub (make_const t 1) w)),
           (a1, Mul adjoint w),
           (a2, Mul adjoint (Sub y x))]
      else if name = ''likely'' then need 1 args [(a0, adjoint)]
      else if name = ''return_second'' then
        need 2 args [(a0, make_const t 0), (a1, adjoint)]
      else if name = ''undef'' then Inr []
      else Inr (map (\<lambda>arg. (arg, make_const t 0)) args))"

fun accumulate_all :: "(IRNode \<times> Expr) list \<Rightarrow> Visitor \<Rightarrow> Visitor" where
  "accumulate_all [] s = s"
| "accumulate_all ((stub, adjoint) # cs) s = accumulate_all cs (accumulate stub adjoint s)"

text \<open>
  A call to a function or an image. In the forward overwrite detection phase the
  visitor only records the adjoint and the arguments of a call of the current function
  to itself. In the other phases the call's adjoint is scattered to the callee's
  accumulator (lines 851 to 1508 of \<^verbatim>\<open>Derivative.cpp\<close>); that part builds function
  definitions through the front end and is the parameter \<open>scatter\<close> here. Its steps
  that the claims are about are modelled in the sections below.
\<close>

definition same_as_current :: "ptr option \<Rightarrow> Visitor \<Rightarrow> bool" where
  \<comment> \<open>\<^verbatim>\<open>op->func.same_as(current_func.function().get_contents())\<close>\<close>
  "same_as_current f s \<longleftrightarrow> f = Some (f_contents (current_func s))"

definition visit_Call_func ::
  "Externals \<Rightarrow> (IRNode \<Rightarrow> Expr \<Rightarrow> Expr list \<Rightarrow> Visitor \<Rightarrow> error + Visitor) \<Rightarrow>
   IRNode \<Rightarrow> IRNode list \<Rightarrow> ptr option \<Rightarrow> nat \<Rightarrow> Expr \<Rightarrow> Visitor \<Rightarrow> error + Visitor" where
  "visit_Call_func X scatter op args f value_index adjoint0 s =
     (let adjoint = add_let_expression X adjoint0 (let_var_mapping s) (let_variables s);
          lhs = map (\<lambda>a. add_let_expression X (expr_of a) (let_var_mapping s) (let_variables s))
                    args
      in
      if is_forward_overwrite_detection_phase s then
        (if same_as_current f s then
           (if value_index < length (self_reference_adjoint s) then
              Inr (s\<lparr>self_reference_adjoint :=
                        (self_reference_adjoint s)
                          [value_index :=
                             simplify X (Add (self_reference_adjoint s ! value_index) adjoint)],
                      self_reference_args := self_reference_args s @ [lhs]\<rparr>)
            else Inl Internal_error)
         else Inr s)
      else if is_self_referencing_phase s \<and> \<not> same_as_current f s then Inr s
      else if \<not> is_self_referencing_phase s \<and> same_as_current f s then Inr s
      else scatter op adjoint lhs s)"

definition visit_Call ::
  "Externals \<Rightarrow> (IRNode \<Rightarrow> Expr \<Rightarrow> Expr list \<Rightarrow> Visitor \<Rightarrow> error + Visitor) \<Rightarrow>
   IRNode \<Rightarrow> Type \<Rightarrow> string \<Rightarrow> IRNode list \<Rightarrow> CallType \<Rightarrow> ptr option \<Rightarrow> nat \<Rightarrow>
   Visitor \<Rightarrow> error + Visitor" where
  "visit_Call X scatter op t name args ct f value_index s =
     (case adjoint_of op s of
        Inl e \<Rightarrow> Inl e
      | Inr adjoint \<Rightarrow>
          if is_extern ct then
            (case extern_adjoints name t adjoint args of
               Inl e \<Rightarrow> Inl e
             | Inr cs \<Rightarrow> Inr (accumulate_all cs s))
          else if is_intrinsic ct then
            (case intrinsic_adjoints name t adjoint args of
               Inl e \<Rightarrow> Inl e
             | Inr cs \<Rightarrow> Inr (accumulate_all cs s))
          else if ct = Halide \<or> ct = Image then
            visit_Call_func X scatter op args f value_index adjoint s
          else Inl Internal_error)"

text \<open>
  \<^verbatim>\<open>expr.accept(this)\<close> dispatches on the node class: to the \<^verbatim>\<open>visit\<close> methods of lines
  44 to 54 for the classes that have one, and through \<^verbatim>\<open>using IRVisitor::visit\<close> (line
  33) to the base class for the others.

  Modelled from the spec: the \<^verbatim>\<open>visit\<close> methods of the base class \<^verbatim>\<open>IRVisitor\<close>, which is
  not among the files at hand (spec, section 9: a double-dispatch visitor over the node
  variants, in which not every node type has a differentiation rule). An immediate
  does nothing; any other node passes the visitor on to its operands.
\<close>

fun accept ::
  "Externals \<Rightarrow> (IRNode \<Rightarrow> Expr \<Rightarrow> Expr list \<Rightarrow> Visitor \<Rightarrow> error + Visitor) \<Rightarrow>
   IRNode \<Rightarrow> Visitor \<Rightarrow> error + Visitor" where
  "accept X scatter (IntImm_at p t v) s = Inr s"
| "accept X scatter (UIntImm_at p t v) s = Inr s"
| "accept X scatter (FloatImm_at p t v) s = Inr s"
| "accept X scatter (Cast_at p t v) s = visit_Cast (Cast_at p t v) t v s"
| "accept X scatter (Variable_at p t n r) s = visit_Variable (Variable_at p t n r) n s"
| "accept X scatter (Add_at p a b) s = visit_Add (Add_at p a b) a b s"
| "accept X scatter (Sub_at p a b) s = visit_Sub (Sub_at p a b) a b s"
| "accept X scatter (Mul_at p a b) s = visit_Mul (Mul_at p a b) a b s"
| "accept X scatter (Div_at p a b) s = visit_Div (Div_at p a b) a b s"
| "accept X scatter (Min_at p a b) s = visit_Min (Min_at p a b) a b s"
| "accept X scatter (Max_at p a b) s = visit_Max (Max_at p a b) a b s"
| "accept X scatter (Let_at p n v b) s = visit_Let (Let_at p n v b) b s"
| "accept X scatter (Select_at p c a b) s = visit_Select (Select_at p c a b) c a b s"
| "accept X scatter (Call_at p t n args ct f i) s =
     visit_Call X scatter (Call_at p t n args ct f i) t n args ct f i s"
| "accept X scatter (Mod_at p a b) s =
     (case accept X scatter a s of Inl e \<Rightarrow> Inl e | Inr s' \<Rightarrow> accept X scatter b s')"
| "accept X scatter (EQ_at p a b) s =
     (case accept X scatter a s of Inl e \<Rightarrow> Inl e | Inr s' \<Rightarrow> accept X scatter b s')"
| "accept X scatter (NE_at p a b) s =
     (case accept X scatter a s of Inl e \<Rightarrow> Inl e | Inr s' \<Rightarrow> accept X scatter b s')"
| "accept X scatter (LT_at p a b) s =
     (case accept X scatter a s of Inl e \<Rightarrow> Inl e | Inr s' \<Rightarrow> accept X scatter b s')"
| "accept X scatter (LE_at p a b) s =
     (case accept X scatter a s of Inl e \<Rightarrow> Inl e | Inr s' \<Rightarrow> accept X scatter b s')"
| "accept X scatter (GT_at p a b) s =
     (case accept X scatter a s of Inl e \<Rightarrow> Inl e | Inr s' \<Rightarrow> accept X scatter b s')"
| "accept X scatter (GE_at p a b) s =
     (case accept X scatter a s of Inl e \<Rightarrow> Inl e | Inr s' \<Rightarrow> accept X scatter b s')"
| "accept X scatter (And_at p a b) s =
     (case accept X scatter a s of Inl e \<Rightarrow> Inl e | Inr s' \<Rightarrow> accept X scatter b s')"
| "accept X scatter (Or_at p a b) s =
     (case accept X scatter a s of Inl e \<Rightarrow> Inl e | Inr s' \<Rightarrow> accept X scatter b s')"
| "accept X scatter (Not_at p a) s = accept X scatter a s"

fun traverse ::
  "Externals \<Rightarrow> (IRNode \<Rightarrow> Expr \<Rightarrow> Expr list \<Rightarrow> Visitor \<Rightarrow> error + Visitor) \<Rightarrow>
   IRNode list \<Rightarrow> Visitor \<Rightarrow> error + Visitor" where
  \<comment> \<open>one \<^verbatim>\<open>accept\<close> per element, in the order of the list (the C++ walks \<^verbatim>\<open>expr_list\<close> from
     \<^verbatim>\<open>rbegin\<close> to \<^verbatim>\<open>rend\<close>, so callers pass the reversed list)\<close>
  "traverse X scatter [] s = Inr s"
| "traverse X scatter (e # es) s =
     (case accept X scatter e s of Inl err \<Rightarrow> Inl err | Inr s' \<Rightarrow> traverse X scatter es s')"

section \<open>Substitution\<close>

text \<open>
  Modelled from the spec: the substitution primitive \<^verbatim>\<open>substitute(name, replacement,
  expr)\<close> of \<^verbatim>\<open>Substitute.h\<close> (spec, section 6), which is not among the files at hand. It
  replaces every variable of that name by the replacement, and does not enter the body
  of a let that binds the name again.
\<close>

fun substitute :: "string \<Rightarrow> Expr \<Rightarrow> Expr \<Rightarrow> Expr" where
  "substitute x r (IntImm t v) = IntImm t v"
| "substitute x r (UIntImm t v) = UIntImm t v"
| "substitute x r (FloatImm t v) = FloatImm t v"
| "substitute x r (Cast t e) = Cast t (substitute x r e)"
| "substitute x r (Variable t n d) = (if n = x then r else Variable t n d)"
| "substitute x r (Add a b) = Add (substitute x r a) (substitute x r b)"
| "substitute x r (Sub a b) = Sub (substitute x r a) (substitute x r b)"
| "substitute x r (Mul a b) = Mul (substitute x r a) (substitute x r b)"
| "substitute x r (Div a b) = Div (substitute x r a) (substitute x r b)"
| "substitute x r (Mod a b) = Mod (substitute x r a) (substitute x r b)"
| "substitute x r (Min_expr a b) = Min_expr (substitute x r a) (substitute x r b)"
| "substitute x r (Max_expr a b) = Max_expr (substitute x r a) (substitute x r b)"
| "substitute x r (EQ a b) = EQ (substitute x r a) (substitute x r b)"
| "substitute x r (NE a b) = NE (substitute x r a) (substitute x r b)"
| "substitute x r (LT a b) = LT (substitute x r a) (substitute x r b)"
| "substitute x r (LE a b) = LE (substitute x r a) (substitute x r b)"
| "substitute x r (GT a b) = GT (substitute x r a) (substitute x r b)"
| "substitute x r (GE a b) = GE (substitute x r a) (substitute x r b)"
| "substitute x r (And a b) = And (substitute x r a) (substitute x r b)"
| "substitute x r (Or a b) = Or (substitute x r a) (substitute x r b)"
| "substitute x r (Not_expr a) = Not_expr (substitute x r a)"
| "substitute x r (Select c a b) =
     Select (substitute x r c) (substitute x r a) (substitute x r b)"
| "substitute x r (Let_expr n v b) =
     Let_expr n (substitute x r v) (if n = x then b else substitute x r b)"
| "substitute x r (Call t n args ct f i) = Call t n (map (substitute x r) args) ct f i"


fun vars_of :: "Expr \<Rightarrow> string set" where
  "vars_of (IntImm t v) = {}"
| "vars_of (UIntImm t v) = {}"
| "vars_of (FloatImm t v) = {}"
| "vars_of (Cast t e) = vars_of e"
| "vars_of (Variable t n d) = {n}"
| "vars_of (Add a b) = vars_of a \<union> vars_of b"
| "vars_of (Sub a b) = vars_of a \<union> vars_of b"
| "vars_of (Mul a b) = vars_of a \<union> vars_of b"
| "vars_of (Div a b) = vars_of a \<union> vars_of b"
| "vars_of (Mod a b) = vars_of a \<union> vars_of b"
| "vars_of (Min_expr a b) = vars_of a \<union> vars_of b"
| "vars_of (Max_expr a b) = vars_of a \<union> vars_of b"
| "vars_of (EQ a b) = vars_of a \<union> vars_of b"
| "vars_of (NE a b) = vars_of a \<union> vars_of b"
| "vars_of (LT a b) = vars_of a \<union> vars_of b"
| "vars_of (LE a b) = vars_of a \<union> vars_of b"
| "vars_of (GT a b) = vars_of a \<union> vars_of b"
| "vars_of (GE a b) = vars_of a \<union> vars_of b"
| "vars_of (And a b) = vars_of a \<union> vars_of b"
| "vars_of (Or a b) = vars_of a \<union> vars_of b"
| "vars_of (Not_expr a) = vars_of a"
| "vars_of (Select c a b) = vars_of c \<union> vars_of a \<union> vars_of b"
| "vars_of (Let_expr n v b) = insert n (vars_of v \<union> vars_of b)"
| "vars_of (Call t n args ct f i) = (\<Union>a \<in> set args. vars_of a)"

section \<open>Maps keyed by name, and the reduction variables of an expression\<close>

text \<open>
  A \<^verbatim>\<open>std::map<string, V>\<close> is the list of its entries in key order. \<open>smap_set\<close> is the
  assignment \<^verbatim>\<open>m[k] = v\<close>; \<open>smap_insert\<close> is \<^verbatim>\<open>m.insert({k, v})\<close>, which keeps an entry
  that is already there; \<open>smap_insert_all m m'\<close> is
  \<^verbatim>\<open>m.insert(m'.begin(), m'.end())\<close>.
\<close>

fun smap_set :: "string \<Rightarrow> 'v \<Rightarrow> (string \<times> 'v) list \<Rightarrow> (string \<times> 'v) list" where
  "smap_set k v [] = [(k, v)]"
| "smap_set k v ((k', v') # m) =
     (if k = k' then (k, v) # m
      else if k < k' then (k, v) # (k', v') # m
      else (k', v') # smap_set k v m)"

fun smap_insert :: "string \<Rightarrow> 'v \<Rightarrow> (string \<times> 'v) list \<Rightarrow> (string \<times> 'v) list" where
  "smap_insert k v [] = [(k, v)]"
| "smap_insert k v ((k', v') # m) =
     (if k = k' then (k', v') # m
      else if k < k' then (k, v) # (k', v') # m
      else (k', v') # smap_insert k v m)"

definition smap_insert_all ::
  "(string \<times> 'v) list \<Rightarrow> (string \<times> 'v) list \<Rightarrow> (string \<times> 'v) list" where
  "smap_insert_all m m' = fold (\<lambda>kv. smap_insert (fst kv) (snd kv)) m' m"

text \<open>
  Modelled from the spec: \<^verbatim>\<open>gather_rvariables\<close> of \<^verbatim>\<open>DerivativeUtils.h\<close>, not among
  the files at hand (spec, section 4.5, step 6: gather all reduction variables
  appearing in an expression). For every variable with a reduction domain it records,
  under the variable's name, the \<^verbatim>\<open>min\<close>, \<^verbatim>\<open>extent\<close> and index the domain gives that
  name, and the domain.
\<close>

record ReductionVariableInfo =
  rvi_min :: Expr
  rvi_extent :: Expr
  rvi_index :: nat
  rvi_domain :: ptr
  rvi_name :: string

fun rvar_occurrences :: "Expr \<Rightarrow> (string \<times> ptr) list" where
  "rvar_occurrences (IntImm t v) = []"
| "rvar_occurrences (UIntImm t v) = []"
| "rvar_occurrences (FloatImm t v) = []"
| "rvar_occurrences (Cast t e) = rvar_occurrences e"
| "rvar_occurrences (Variable t n d) = (case d of None \<Rightarrow> [] | Some rd \<Rightarrow> [(n, rd)])"
| "rvar_occurrences (Add a b) = rvar_occurrences a @ rvar_occurrences b"
| "rvar_occurrences (Sub a b) = rvar_occurrences a @ rvar_occurrences b"
| "rvar_occurrences (Mul a b) = rvar_occurrences a @ rvar_occurrences b"
| "rvar_occurrences (Div a b) = rvar_occurrences a @ rvar_occurrences b"
| "rvar_occurrences (Mod a b) = rvar_occurrences a @ rvar_occurrences b"
| "rvar_occurrences (Min_expr a b) = rvar_occurrences a @ rvar_occurrences b"
| "rvar_occurrences (Max_expr a b) = rvar_occurrences a @ rvar_occurrences b"
| "rvar_occurrences (EQ a b) = rvar_occurrences a @ rvar_occurrences b"
| "rvar_occurrences (NE a b) = rvar_occurrences a @ rvar_occurrences b"
| "rvar_occurrences (LT a b) = rvar_occurrences a @ rvar_occurrences b"
| "rvar_occurrences (LE a b) = rvar_occurrences a @ rvar_occurrences b"
| "rvar_occurrences (GT a b) = rvar_occurrences a @ rvar_occurrences b"
| "rvar_occurrences (GE a b) = rvar_occurrences a @ rvar_occurrences b"
| "rvar_occurrences (And a b) = rvar_occurrences a @ rvar_occurrences b"
| "rvar_occurrences (Or a b) = rvar_occurrences a @ rvar_occurrences b"
| "rvar_occurrences (Not_expr a) = rvar_occurrences a"
| "rvar_occurrences (Select c a b) =
     rvar_occurrences c @ rvar_occurrences a @ rvar_occurrences b"
| "rvar_occurrences (Let_expr n v b) = rvar_occurrences v @ rvar_occurrences b"
| "rvar_occurrences (Call t n args ct f i) = concat (map rvar_occurrences args)"

fun find_rvar :: "ReductionVariable list \<Rightarrow> string \<Rightarrow> nat option" where
  \<comment> \<open>the first \<open>rid\<close> with \<^verbatim>\<open>domain[rid].var == name\<close>\<close>
  "find_rvar [] name = None"
| "find_rvar (rv # rvs) name =
     (if rv_var rv = name then Some 0 else map_option Suc (find_rvar rvs name))"

fun gather_occurrences ::
  "rdom_store \<Rightarrow> (string \<times> ptr) list \<Rightarrow> (string \<times> ReductionVariableInfo) list \<Rightarrow>
   error + (string \<times> ReductionVariableInfo) list" where
  "gather_occurrences store [] m = Inr m"
| "gather_occurrences store ((name, rd) # occs) m =
     (case store rd of
        None \<Rightarrow> Inl Internal_error
      | Some c \<Rightarrow>
          (case find_rvar (rd_domain c) name of
             None \<Rightarrow> Inl Internal_error
           | Some i \<Rightarrow>
               gather_occurrences store occs
                 (smap_set name
                    \<lparr>rvi_min = rv_min (rd_domain c ! i), rvi_extent = rv_extent (rd_domain c ! i),
                     rvi_index = i, rvi_domain = rd, rvi_name = name\<rparr> m)))"

definition gather_rvariables ::
  "rdom_store \<Rightarrow> Expr \<Rightarrow> error + (string \<times> ReductionVariableInfo) list" where
  "gather_rvariables store e = gather_occurrences store (rvar_occurrences e) []"

fun gather_into ::
  "rdom_store \<Rightarrow> Expr list \<Rightarrow> (string \<times> ReductionVariableInfo) list \<Rightarrow>
   error + (string \<times> ReductionVariableInfo) list" where
  \<comment> \<open>\<^verbatim>\<open>for (lhs_arg : lhs) { maps = gather_rvariables(lhs_arg); m.insert(maps.begin(), maps.end()); }\<close>\<close>
  "gather_into store [] m = Inr m"
| "gather_into store (lhs_arg # lhs) m =
     (case gather_rvariables store lhs_arg of
        Inl e \<Rightarrow> Inl e
      | Inr maps \<Rightarrow> gather_into store lhs (smap_insert_all m maps))"

definition gather_rvar_maps ::
  "rdom_store \<Rightarrow> Expr \<Rightarrow> Expr list \<Rightarrow> error + (string \<times> ReductionVariableInfo) list" where
  \<comment> \<open>\<^verbatim>\<open>rvar_maps\<close> from the adjoint and the left-hand side (lines 1304 to 1310), and
     \<^verbatim>\<open>org_rvar_maps\<close> from what they were before canonicalization (lines 1312 to 1318)\<close>
  "gather_rvar_maps store adjoint lhs =
     (case gather_rvariables store adjoint of
        Inl e \<Rightarrow> Inl e
      | Inr m \<Rightarrow> gather_into store lhs m)"

section \<open>Forward overwrite detection\<close>

text \<open>
  Lines 138 to 381 of \<^verbatim>\<open>ReverseAccumulationVisitor::propagate_adjoints\<close>. \<open>update_box\<close>
  is the index-range box of one update's left-hand side (lines 146 to 165): each
  argument's bounds are taken in a scope that binds the reduction variables of the
  argument's domain to the interval from \<^verbatim>\<open>r.min\<close> to
  \<^verbatim>\<open>simplify(r.min + r.extent + 1)\<close>.
\<close>

definition rvar_scope :: "Externals \<Rightarrow> ReductionVariable list \<Rightarrow> Interval Scope" where
  "rvar_scope X rvars =
     fold (\<lambda>r scope.
             Scope_push (rv_var r)
               (Interval (rv_min r)
                  (simplify X (Add (Add (rv_min r) (rv_extent r))
                                    (make_const (type_of (rv_min r)) 1))))
               scope)
          rvars Scope_new"

definition arg_interval :: "Externals \<Rightarrow> rdom_store \<Rightarrow> Expr \<Rightarrow> error + Interval" where
  "arg_interval X store arg =
     (case extract_rdom X arg of
        None \<Rightarrow> Inr (bounds_of_expr_in_scope X arg Scope_new)
      | Some rd \<Rightarrow>
          (case store rd of
             None \<Rightarrow> Inl Internal_error
           | Some c \<Rightarrow> Inr (bounds_of_expr_in_scope X arg (rvar_scope X (rd_domain c)))))"

definition update_box :: "Externals \<Rightarrow> rdom_store \<Rightarrow> Definition \<Rightarrow> error + Box" where
  "update_box X store upd = map_err (arg_interval X store) (d_args upd)"

definition update_boxes :: "Externals \<Rightarrow> rdom_store \<Rightarrow> Function \<Rightarrow> error + Box list" where
  "update_boxes X store func = map_err (update_box X store) (f_updates func)"

text \<open>
  The expression-level pass of one update in the detection phase (lines 210 to 259):
  the self-reference record is reset, the values are sorted into \<^verbatim>\<open>expr_list\<close> (the
  last node of each value's list is the value's output node; \<^verbatim>\<open>back()\<close> of an empty
  list is undefined in C++ and aborts here), the let bindings are gathered, the adjoint
  of every output node is set to \<^verbatim>\<open>1.f\<close>, and the list is traversed from back to front.
\<close>

fun as_Let_at :: "IRNode \<Rightarrow> (string \<times> IRNode) option" where
  "as_Let_at (Let_at p n v b) = Some (n, v)"
| "as_Let_at e = None"

fun as_Call_at :: "IRNode \<Rightarrow> (string \<times> CallType) option" where
  "as_Call_at (Call_at p t n args ct f i) = Some (n, ct)"
| "as_Call_at e = None"

fun sort_values ::
  "Externals \<Rightarrow> IRNode list \<Rightarrow> IRNode list \<times> IRNode list \<Rightarrow> error + IRNode list \<times> IRNode list" where
  \<comment> \<open>the pair is \<^verbatim>\<open>expr_list\<close> and \<^verbatim>\<open>output_exprs\<close>\<close>
  "sort_values X [] acc = Inr acc"
| "sort_values X (v # vs) acc =
     (let expr_list = fst acc @ sort_expressions X v
      in if expr_list = [] then Inl Internal_error
         else sort_values X vs (expr_list, snd acc @ [last expr_list]))"

fun gather_lets ::
  "IRNode list \<Rightarrow> (string \<times> IRNode) list \<times> string list \<Rightarrow>
   error + (string \<times> IRNode) list \<times> string list" where
  \<comment> \<open>the pair is \<^verbatim>\<open>let_var_mapping\<close> and \<^verbatim>\<open>let_variables\<close>\<close>
  "gather_lets [] acc = Inr acc"
| "gather_lets (e # es) acc =
     (case as_Let_at e of
        None \<Rightarrow> gather_lets es acc
      | Some (name, v) \<Rightarrow>
          if map_of (fst acc) name \<noteq> None then Inl Assert_failed
          else gather_lets es (smap_set name v (fst acc), snd acc @ [name]))"

definition seed_outputs :: "Expr \<Rightarrow> IRNode list \<Rightarrow> (IRNode \<times> Expr) list \<Rightarrow> (IRNode \<times> Expr) list" where
  \<comment> \<open>\<^verbatim>\<open>expr_adjoints[output_exprs[i]] = seed\<close> for every \<open>i\<close> in turn\<close>
  "seed_outputs seed outputs m = fold (\<lambda>output. adj_set output seed) outputs m"

definition detect_traverse ::
  "Externals \<Rightarrow> (IRNode \<Rightarrow> Expr \<Rightarrow> Expr list \<Rightarrow> Visitor \<Rightarrow> error + Visitor) \<Rightarrow>
   Function \<Rightarrow> Definition \<Rightarrow> Visitor \<Rightarrow> error + Visitor" where
  "detect_traverse X scatter func upd s =
     (case sort_values X (d_values upd) ([], []) of
        Inl e \<Rightarrow> Inl e
      | Inr (expr_list, output_exprs) \<Rightarrow>
          (case gather_lets expr_list ([], []) of
             Inl e \<Rightarrow> Inl e
           | Inr (mapping, names) \<Rightarrow>
               traverse X scatter (rev expr_list)
                 (s\<lparr>self_reference_adjoint :=
                       map (\<lambda>v. make_const (type_of (expr_of v)) 0) (f_values func),
                     self_reference_args := [],
                     let_var_mapping := mapping,
                     let_variables := names,
                     expr_adjoints :=
                       seed_outputs (FloatImm Float32 1) output_exprs (expr_adjoints s)\<rparr>)))"

text \<open>
  The first check (lines 266 to 307), over the entries of \<^verbatim>\<open>expr_adjoints\<close> in key
  order. \<open>overwrite_error\<close> is what the lambda \<^verbatim>\<open>error\<close> raises.
\<close>

definition overwrite_error :: "Function \<Rightarrow> error" where
  "overwrite_error func =
     User_error (''Can't take the gradients of '' @ f_name func
                 @ '', which depend on intermediate values. ''
                 @ ''Use a scan (which saves intermediate results) instead.'')"

definition is_target_func_or_buffer :: "IRNode \<Rightarrow> bool" where
  "is_target_func_or_buffer target =
     (case as_Call_at target of
        None \<Rightarrow> False
      | Some (name, ct) \<Rightarrow> ct = Image \<or> ct = Halide)"

definition targets_other :: "Function \<Rightarrow> IRNode \<Rightarrow> bool" where
  \<comment> \<open>\<^verbatim>\<open>is_target_func_or_buffer && call_op->name != func.name()\<close>\<close>
  "targets_other func target =
     (case as_Call_at target of
        None \<Rightarrow> False
      | Some (name, ct) \<Rightarrow> (ct = Image \<or> ct = Halide) \<and> name \<noteq> f_name func)"

definition check_prev_box :: "Externals \<Rightarrow> Function \<Rightarrow> Box list \<Rightarrow> nat \<Rightarrow> nat \<Rightarrow> unit \<Rightarrow> error + unit" where
  "check_prev_box X func boxes update_id prev_update_id u =
     (if length (boxes ! update_id) \<noteq> length (boxes ! prev_update_id) then Inl Internal_error
      else if boxes_overlap X (boxes ! update_id) (boxes ! prev_update_id)
      then Inl (overwrite_error func)
      else Inr ())"

definition check_self_reference ::
  "Externals \<Rightarrow> Function \<Rightarrow> Box list \<Rightarrow> nat \<Rightarrow> (string \<times> IRNode) list \<Rightarrow> error + unit" where
  \<comment> \<open>lines 282 to 301: the pure definition, then every previous update\<close>
  "check_self_reference X func boxes update_id lets =
     (if \<exists>v \<in> set (f_values func). is_calling_function X (expr_of v) lets
      then Inl (overwrite_error func)
      else fold_err (check_prev_box X func boxes update_id) [0 ..< update_id] ())"

definition check_entry ::
  "Externals \<Rightarrow> Function \<Rightarrow> Box list \<Rightarrow> nat \<Rightarrow> (string \<times> IRNode) list \<Rightarrow>
   IRNode \<times> Expr \<Rightarrow> bool \<Rightarrow> error + bool" where
  \<comment> \<open>one round of the loop; the flag is \<^verbatim>\<open>adjoints_used_by_others\<close>\<close>
  "check_entry X func boxes update_id lets it used =
     (case (if is_target_func_or_buffer (fst it)
               \<and> is_calling_function_named X (f_name func) (snd it) lets
            then check_self_reference X func boxes update_id lets
            else Inr ()) of
        Inl e \<Rightarrow> Inl e
      | Inr u \<Rightarrow> Inr (used \<or> targets_other func (fst it)))"

definition check_overwritten ::
  "Externals \<Rightarrow> Function \<Rightarrow> Box list \<Rightarrow> nat \<Rightarrow> (string \<times> IRNode) list \<Rightarrow>
   (IRNode \<times> Expr) list \<Rightarrow> error + bool" where
  "check_overwritten X func boxes update_id lets entries =
     fold_err (check_entry X func boxes update_id lets) entries False"

text \<open>
  The second check (lines 310 to 379). \<open>not_overwriting_cond\<close> is the condition built
  for one recorded self-reference; \<^verbatim>\<open>varying\<close>, the scope handed to
  \<^verbatim>\<open>and_condition_over_domain\<close>, is empty in the C++.
\<close>

definition all_zero_or_one_self_adjoint :: "Externals \<Rightarrow> Visitor \<Rightarrow> bool" where
  "all_zero_or_one_self_adjoint X s \<longleftrightarrow>
     (\<forall>e \<in> set (self_reference_adjoint s). is_const_value X e 0 \<or> is_const_value X e 1)"

definition update_rdom :: "Externals \<Rightarrow> Definition \<Rightarrow> ptr option" where
  \<comment> \<open>the first reduction domain found in the left-hand side, else in the values\<close>
  "update_rdom X upd =
     (case List.map_filter (extract_rdom X) (d_args upd) of
        r # rs \<Rightarrow> Some r
      | [] \<Rightarrow>
          (case List.map_filter (\<lambda>v. extract_rdom X (expr_of v)) (d_values upd) of
             r # rs \<Rightarrow> Some r
           | [] \<Rightarrow> None))"

definition not_overwriting_cond :: "Externals \<Rightarrow> Expr list \<Rightarrow> Expr list \<Rightarrow> Expr" where
  "not_overwriting_cond X update_args self_ref_args =
     and_condition_over_domain X
       (fold (\<lambda>arg_id c. simplify X (Or c (NE (self_ref_args ! arg_id) (update_args ! arg_id))))
             [0 ..< length self_ref_args] const_false)
       Scope_new"

fun is_not_overwriting :: "Externals \<Rightarrow> Expr list \<Rightarrow> Expr list list \<Rightarrow> bool \<Rightarrow> error + bool" where
  "is_not_overwriting X update_args [] b = Inr b"
| "is_not_overwriting X update_args (self_ref_args # rest) b =
     (if length self_ref_args \<noteq> length update_args then Inl Internal_error
      else is_not_overwriting X update_args rest
             (b \<and> can_prove X (not_overwriting_cond X update_args self_ref_args)))"

definition detect_update ::
  "Externals \<Rightarrow> (IRNode \<Rightarrow> Expr \<Rightarrow> Expr list \<Rightarrow> Visitor \<Rightarrow> error + Visitor) \<Rightarrow>
   Function \<Rightarrow> Box list \<Rightarrow> nat \<Rightarrow> Visitor \<times> FuncKey set \<Rightarrow> error + Visitor \<times> FuncKey set" where
  \<comment> \<open>one round of the loop over the updates of \<open>func\<close>; the set is
     \<^verbatim>\<open>non_overwriting_scans\<close>\<close>
  "detect_update X scatter func boxes update_id st =
     (let upd = f_updates func ! update_id
      in case detect_traverse X scatter func upd (fst st) of
           Inl e \<Rightarrow> Inl e
         | Inr s1 \<Rightarrow>
             (case check_overwritten X func boxes update_id (let_var_mapping s1)
                     (expr_adjoints s1) of
                Inl e \<Rightarrow> Inl e
              | Inr adjoints_used_by_others \<Rightarrow>
                  let s2 = s1\<lparr>expr_adjoints := []\<rparr>
                  in if \<not> all_zero_or_one_self_adjoint X s2 \<and> d_rvars upd \<noteq> [] then
                       (if update_rdom X upd = None then Inl Internal_error
                        else
                          (case is_not_overwriting X (d_args upd) (self_reference_args s2) True of
                             Inl e \<Rightarrow> Inl e
                           | Inr proven \<Rightarrow>
                               if \<not> proven \<and> adjoints_used_by_others
                               then Inl (overwrite_error func)
                               else if proven
                               then Inr (s2, insert (f_name func, int update_id) (snd st))
                               else Inr (s2, snd st)))
                     else Inr (s2, snd st)))"

definition detect_func ::
  "Externals \<Rightarrow> (IRNode \<Rightarrow> Expr \<Rightarrow> Expr list \<Rightarrow> Visitor \<Rightarrow> error + Visitor) \<Rightarrow>
   rdom_store \<Rightarrow> Function \<Rightarrow> Visitor \<times> FuncKey set \<Rightarrow> error + Visitor \<times> FuncKey set" where
  "detect_func X scatter store func st =
     (case update_boxes X store func of
        Inl e \<Rightarrow> Inl e
      | Inr boxes \<Rightarrow>
          fold_err (detect_update X scatter func boxes) [0 ..< num_update_definitions func]
            ((fst st)\<lparr>current_func := func\<rparr>, snd st))"

definition forward_overwrite_detection ::
  "Externals \<Rightarrow> (IRNode \<Rightarrow> Expr \<Rightarrow> Expr list \<Rightarrow> Visitor \<Rightarrow> error + Visitor) \<Rightarrow>
   rdom_store \<Rightarrow> Function list \<Rightarrow> Visitor \<Rightarrow> error + Visitor \<times> FuncKey set" where
  "forward_overwrite_detection X scatter store funcs s =
     (case fold_err (detect_func X scatter store) funcs
             (s\<lparr>is_forward_overwrite_detection_phase := True\<rparr>, {}) of
        Inl e \<Rightarrow> Inl e
      | Inr st \<Rightarrow> Inr ((fst st)\<lparr>is_forward_overwrite_detection_phase := False\<rparr>, snd st))"

text \<open>
  The method as a whole, and the entry point of lines 1528 to 1539. What follows the
  detection phase (bounds inference, the accumulator stubs and the reverse pass, lines
  383 to 664) builds functions through the front end and is the parameter
  \<open>reverse_pass\<close>, which receives \<^verbatim>\<open>non_overwriting_scans\<close> and the visitor.
\<close>

definition Visitor_propagate_adjoints ::
  "Externals \<Rightarrow> (IRNode \<Rightarrow> Expr \<Rightarrow> Expr list \<Rightarrow> Visitor \<Rightarrow> error + Visitor) \<Rightarrow>
   (Function list \<Rightarrow> FuncKey set \<Rightarrow> Function \<Rightarrow> (Expr \<times> Expr) list \<Rightarrow> Visitor \<Rightarrow> error + Visitor) \<Rightarrow>
   rdom_store \<Rightarrow> Function \<Rightarrow> Function \<Rightarrow> (Expr \<times> Expr) list \<Rightarrow> Visitor \<Rightarrow> error + Visitor" where
  "Visitor_propagate_adjoints X scatter reverse_pass store output adjoint output_bounds s =
     (let funcs = realization_funcs X output
      in if funcs = [] then Inl Internal_error
         else
           (case forward_overwrite_detection X scatter store funcs s of
              Inl e \<Rightarrow> Inl e
            | Inr (s', non_overwriting_scans) \<Rightarrow>
                reverse_pass funcs non_overwriting_scans adjoint output_bounds s'))"

definition propagate_adjoints ::
  "Externals \<Rightarrow> (IRNode \<Rightarrow> Expr \<Rightarrow> Expr list \<Rightarrow> Visitor \<Rightarrow> error + Visitor) \<Rightarrow>
   (Function list \<Rightarrow> FuncKey set \<Rightarrow> Function \<Rightarrow> (Expr \<times> Expr) list \<Rightarrow> Visitor \<Rightarrow> error + Visitor) \<Rightarrow>
   rdom_store \<Rightarrow> Function \<Rightarrow> Function \<Rightarrow> (Expr \<times> Expr) list \<Rightarrow>
   error + (FuncKey \<times> Function) list" where
  "propagate_adjoints X scatter reverse_pass store output adjoint output_bounds =
     (if dimensions output \<noteq> dimensions adjoint
      then Inl (User_error ''output dimensions and adjoint dimensions must match'')
      else if length output_bounds \<noteq> dimensions adjoint
      then Inl (User_error ''output_bounds and adjoint dimensions must match'')
      else
        (case Visitor_propagate_adjoints X scatter reverse_pass store output adjoint
                output_bounds (Visitor_new output) of
           Inl e \<Rightarrow> Inl e
         | Inr s \<Rightarrow> Inr (adjoint_funcs s)))"

section \<open>Flipping the original reduction variables of a non-overwriting scan\<close>








section \<open>The simplification rules of general scattering\<close>

text \<open>
  Lines 1183 to 1298 of \<^verbatim>\<open>Derivative.cpp\<close>: the loop over the left-hand-side
  coordinates that tries the two rewrites. \<open>as_Variable\<close>, \<open>as_Add\<close> and \<open>as_Mul\<close> are the
  downcasts \<^verbatim>\<open>as<Variable>()\<close>, \<^verbatim>\<open>as<Add>()\<close> and \<^verbatim>\<open>as<Mul>()\<close>.

  Modelled from the spec: \<^verbatim>\<open>ReductionDomain::split_predicate\<close> (\<^verbatim>\<open>Reduction.h\<close>, not
  among the files at hand) lists the conjuncts of the predicate that are not the
  constant one (spec, section 3: a domain has an optional predicate).
\<close>

fun as_Variable :: "Expr \<Rightarrow> (Type \<times> string \<times> ptr option) option" where
  "as_Variable (Variable t n d) = Some (t, n, d)"
| "as_Variable e = None"

fun as_Add :: "Expr \<Rightarrow> (Expr \<times> Expr) option" where
  "as_Add (Add a b) = Some (a, b)"
| "as_Add e = None"

fun as_Mul :: "Expr \<Rightarrow> (Expr \<times> Expr) option" where
  "as_Mul (Mul a b) = Some (a, b)"
| "as_Mul e = None"

fun is_one :: "Expr \<Rightarrow> bool" where
  "is_one (IntImm t v) = (v = 1)"
| "is_one (UIntImm t v) = (v = 1)"
| "is_one (FloatImm t v) = (v = 1)"
| "is_one e = False"

fun split_predicate :: "Expr \<Rightarrow> Expr list" where
  "split_predicate (And a b) = split_predicate a @ split_predicate b"
| "split_predicate e = (if is_one e then [] else [e])"

definition Var_expr :: "string \<Rightarrow> Expr" where
  \<comment> \<open>a \<^verbatim>\<open>Var\<close> used as an expression\<close>
  "Var_expr name = Variable Int32 name None"

definition span_guard :: "Externals \<Rightarrow> ReductionVariable \<Rightarrow> Interval \<Rightarrow> bool" where
  \<comment> \<open>the condition of the first rewrite, as written at lines 1226 to 1228\<close>
  "span_guard X rvar target =
     (let t_min = simplify X (i_min target);
          t_max = simplify X (i_max target);
          r_min = simplify X (rv_min rvar);
          r_max = simplify X (Sub (Add (rv_min rvar) (rv_extent rvar))
                                   (make_const (type_of (rv_min rvar)) 1))
      in can_prove X (And (LE r_min t_min) (GE r_max t_max)) \<and> False)"

definition span_rewrite :: "Externals \<Rightarrow> string \<Rightarrow> string \<Rightarrow> nat \<Rightarrow> Expr list \<times> Expr \<Rightarrow> Expr list \<times> Expr" where
  \<comment> \<open>the body of the first rewrite, lines 1229 to 1238: coordinate \<open>i\<close> becomes the pure
     variable \<open>x\<close>, which replaces the reduction variable everywhere else\<close>
  "span_rewrite X rvar_name x i la =
     (map (\<lambda>j. if j = i then Var_expr x
                else simplify X (substitute rvar_name (Var_expr x) (fst la ! j)))
          [0 ..< length (fst la)],
      simplify X (substitute rvar_name (Var_expr x) (snd la)))"

definition downsample_rewrite ::
  "Externals \<Rightarrow> rdom_store \<Rightarrow> Expr \<Rightarrow> Expr \<Rightarrow> Expr \<Rightarrow> string \<Rightarrow> nat \<Rightarrow> Expr list \<times> Expr \<Rightarrow>
   error + Expr list \<times> Expr" where
  \<comment> \<open>the second rewrite, lines 1241 to 1297, for \<^verbatim>\<open>lhs_arg = a0 + b0\<close>\<close>
  "downsample_rewrite X store lhs_arg a0 b0 x i la =
     (if (as_Mul a0 \<noteq> None \<and> as_Variable b0 \<noteq> None) \<or> (as_Variable a0 \<noteq> None \<and> as_Mul b0 \<noteq> None)
      then
        (let a = (if as_Mul b0 \<noteq> None then b0 else a0);
             b = (if as_Mul b0 \<noteq> None then a0 else b0)
         in case (as_Mul a, as_Variable b) of
              (Some (m0, m1), Some (bt, b_name, b_rdom)) \<Rightarrow>
                (let swap = (case as_Variable m0 of
                               Some (t0, n0, Some d0) \<Rightarrow> True | _ \<Rightarrow> False);
                     mul_a = (if swap then m1 else m0);
                     mul_b = (if swap then m0 else m1)
                 in case as_Variable mul_b of
                      Some (mt, m_name, Some m_rdom) \<Rightarrow>
                        (case b_rdom of
                           None \<Rightarrow> Inr la
                         | Some bd \<Rightarrow>
                             (case store bd of
                                None \<Rightarrow> Inl Internal_error
                              | Some c \<Rightarrow>
                                  (case find_rvar (rd_domain c) b_name of
                                     None \<Rightarrow> Inl Assert_failed
                                   | Some rvar_id \<Rightarrow>
                                       if rv_min (rd_domain c ! rvar_id) \<noteq> IntImm Int32 0
                                          \<or> rv_extent (rd_domain c ! rvar_id) \<noteq> mul_a
                                       then Inr la
                                       else
                                         Inr ((fst la)[i := Var_expr x],
                                              simplify X
                                                (substitute_expr X mul_b (Div (Var_expr x) mul_a)
                                                   (substitute_expr X lhs_arg (Var_expr x)
                                                      (substitute_in_all_lets X (snd la))))))))
                    | _ \<Rightarrow> Inr la)
            | _ \<Rightarrow> Inl Assert_failed)
      else Inr la)"

definition simplify_lhs_arg ::
  "Externals \<Rightarrow> rdom_store \<Rightarrow> (string \<times> Box) list \<Rightarrow> string \<Rightarrow> string list \<Rightarrow> nat \<Rightarrow>
   Expr list \<times> Expr \<Rightarrow> error + Expr list \<times> Expr" where
  \<comment> \<open>one round of the loop, for coordinate \<open>i\<close>; \<open>bounds\<close> is \<^verbatim>\<open>func_bounds\<close>, \<open>target\<close> is
     \<^verbatim>\<open>op->name\<close> and \<open>xs\<close> are \<^verbatim>\<open>func_to_update_args\<close>. Reading a coordinate, a bound or
     an argument that is not there is undefined in C++ and aborts here.\<close>
  "simplify_lhs_arg X store bounds target xs i la =
     (if length (fst la) \<le> i \<or> length xs \<le> i then Inl Internal_error
      else
        let lhs_arg = substitute_in_all_lets X (fst la ! i)
        in case as_Variable lhs_arg of
             Some (t, name, Some rd) \<Rightarrow>
               (case store rd of
                  None \<Rightarrow> Inl Internal_error
                | Some c \<Rightarrow>
                    if split_predicate (rd_predicate c) = [] then
                      (case find_rvar (rd_domain c) name of
                         None \<Rightarrow> Inl Assert_failed
                       | Some rvar_id \<Rightarrow>
                           (case map_of bounds target of
                              None \<Rightarrow> Inl Internal_error
                            | Some target_bounds \<Rightarrow>
                                if length target_bounds \<le> i then Inl Internal_error
                                else if span_guard X (rd_domain c ! rvar_id) (target_bounds ! i)
                                then Inr (span_rewrite X (rv_var (rd_domain c ! rvar_id)) (xs ! i) i la)
                                else Inr la))
                    else Inr la)
           | Some (t, name, None) \<Rightarrow> Inr la
           | None \<Rightarrow>
               (case as_Add lhs_arg of
                  None \<Rightarrow> Inr la
                | Some (a0, b0) \<Rightarrow> downsample_rewrite X store lhs_arg a0 b0 (xs ! i) i la))"

definition general_scatter_simplification ::
  "Externals \<Rightarrow> rdom_store \<Rightarrow> (string \<times> Box) list \<Rightarrow> string \<Rightarrow> string list \<Rightarrow>
   Expr list \<times> Expr \<Rightarrow> error + Expr list \<times> Expr" where
  "general_scatter_simplification X store bounds target xs la =
     fold_err (simplify_lhs_arg X store bounds target xs) [0 ..< length (fst la)] la"

section \<open>Merging the reduction domains\<close>

text \<open>
  Lines 1342 to 1408 of \<^verbatim>\<open>Derivative.cpp\<close>. \<open>Compare\<close> is
  \<^verbatim>\<open>ReductionDomain::Compare\<close>, the order of the addresses of the contents; \<open>cmp_rv\<close> is
  the lambda of that name.

  Modelled from the spec: \<^verbatim>\<open>std::sort\<close>, of the C++ standard library (spec, section
  4.5, step 6: the groups are ordered by original domain and index). Ranges as short
  as the ones of this pass are sorted by insertion: each element in turn goes to the
  front when it compares less than the first element, and otherwise moves towards the
  front past every element it compares less than. On a range of two elements this
  swaps them exactly when the second compares less than the first.
\<close>

definition Compare :: "ptr \<Rightarrow> ptr \<Rightarrow> bool" where
  "Compare a b \<longleftrightarrow> a < b"

definition cmp_rv :: "ReductionVariableInfo \<Rightarrow> ReductionVariableInfo \<Rightarrow> bool" where
  "cmp_rv rv0 rv1 =
     (if Compare (rvi_domain rv0) (rvi_domain rv1) then True
      else rvi_index rv0 < rvi_index rv1)"

fun linear_insert :: "('a \<Rightarrow> 'a \<Rightarrow> bool) \<Rightarrow> 'a \<Rightarrow> 'a list \<Rightarrow> 'a list" where
  \<comment> \<open>the sorted prefix, last element first\<close>
  "linear_insert cmp v [] = [v]"
| "linear_insert cmp v (y # ys) = (if cmp v y then y # linear_insert cmp v ys else v # y # ys)"

definition insert_step :: "('a \<Rightarrow> 'a \<Rightarrow> bool) \<Rightarrow> 'a list \<Rightarrow> 'a \<Rightarrow> 'a list" where
  "insert_step cmp prefix v =
     (case prefix of
        [] \<Rightarrow> [v]
      | first # rest \<Rightarrow>
          if cmp v first then v # prefix else rev (linear_insert cmp v (rev prefix)))"

definition std_sort :: "('a \<Rightarrow> 'a \<Rightarrow> bool) \<Rightarrow> 'a list \<Rightarrow> 'a list" where
  "std_sort cmp xs = foldl (insert_step cmp) [] xs"

definition new_rvar_vec ::
  "(string \<times> ReductionVariableInfo) list \<Rightarrow> (string \<times> ReductionVariableInfo) list \<Rightarrow>
   ReductionVariableInfo list" where
  "new_rvar_vec rvar_maps org_rvar_maps =
     map snd (filter (\<lambda>it. map_of org_rvar_maps (fst it) = None) rvar_maps)"

definition old_rvar_vec ::
  "(string \<times> ReductionVariableInfo) list \<Rightarrow> (string \<times> ReductionVariableInfo) list \<Rightarrow>
   ReductionVariableInfo list" where
  "old_rvar_vec rvar_maps org_rvar_maps =
     map snd (filter (\<lambda>it. map_of org_rvar_maps (fst it) \<noteq> None) rvar_maps)"

definition merged_rvars ::
  "(string \<times> ReductionVariableInfo) list \<Rightarrow> (string \<times> ReductionVariableInfo) list \<Rightarrow>
   ReductionVariableInfo list" where
  \<comment> \<open>the two vectors, each sorted, flattened: newly introduced variables first\<close>
  "merged_rvars rvar_maps org_rvar_maps =
     std_sort cmp_rv (new_rvar_vec rvar_maps org_rvar_maps)
     @ std_sort cmp_rv (old_rvar_vec rvar_maps org_rvar_maps)"

definition var_names ::
  "(string \<times> ReductionVariableInfo) list \<Rightarrow> (string \<times> ReductionVariableInfo) list \<Rightarrow>
   string list" where
  "var_names rvar_maps org_rvar_maps = map rvi_name (merged_rvars rvar_maps org_rvar_maps)"

definition merged_bounds ::
  "(string \<times> ReductionVariableInfo) list \<Rightarrow> (string \<times> ReductionVariableInfo) list \<Rightarrow>
   (Expr \<times> Expr) list" where
  "merged_bounds rvar_maps org_rvar_maps =
     map (\<lambda>it. (rvi_min it, rvi_extent it)) (merged_rvars rvar_maps org_rvar_maps)"

text \<open>
  Modelled from the spec: the \<^verbatim>\<open>RDom\<close> constructor and \<^verbatim>\<open>RDom::where\<close> (\<^verbatim>\<open>RDom.h\<close>, not
  among the files at hand; spec, section 3: a named, ordered set of bounded variables
  with an optional predicate). The constructor allocates contents at a new address
  \<open>rd_new\<close>, with variables named \<open>fresh 0\<close>, \<open>fresh 1\<close>, ... and the constant true as
  predicate; \<^verbatim>\<open>where\<close> conjoins a predicate to the one that is there.
\<close>

definition RDom_new :: "(nat \<Rightarrow> string) \<Rightarrow> (Expr \<times> Expr) list \<Rightarrow> ReductionDomainContents" where
  "RDom_new fresh ranges =
     \<lparr>rd_domain = map (\<lambda>rid. \<lparr>rv_var = fresh rid, rv_min = fst (ranges ! rid),
                                rv_extent = snd (ranges ! rid)\<rparr>) [0 ..< length ranges],
      rd_predicate = const_true\<rparr>"

definition RDom_where :: "Externals \<Rightarrow> Expr \<Rightarrow> ReductionDomainContents \<Rightarrow> ReductionDomainContents" where
  "RDom_where X predicate c = c\<lparr>rd_predicate := simplify X (And (rd_predicate c) predicate)\<rparr>"

definition rdoms_of :: "(string \<times> ReductionVariableInfo) list \<Rightarrow> ptr list" where
  \<comment> \<open>the \<^verbatim>\<open>set<ReductionDomain, ReductionDomain::Compare>\<close> of the domains of \<^verbatim>\<open>rvar_maps\<close>,
     in its order\<close>
  "rdoms_of rvar_maps = sort (remdups (map (\<lambda>it. rvi_domain (snd it)) rvar_maps))"

fun conjoin_predicates :: "Externals \<Rightarrow> rdom_store \<Rightarrow> ptr list \<Rightarrow> Expr \<Rightarrow> error + Expr" where
  "conjoin_predicates X store [] p = Inr p"
| "conjoin_predicates X store (rd # rds) p =
     (case store rd of
        None \<Rightarrow> Inl Internal_error
      | Some c \<Rightarrow> conjoin_predicates X store rds (simplify X (And p (rd_predicate c))))"

definition rename_to_merged :: "ptr \<Rightarrow> (nat \<Rightarrow> string) \<Rightarrow> string list \<Rightarrow> Expr \<Rightarrow> Expr" where
  \<comment> \<open>\<^verbatim>\<open>e = substitute(var_names[rid], merged_r[rid], e)\<close> for every \<open>rid\<close> in turn\<close>
  "rename_to_merged rd_new fresh names e =
     fold (\<lambda>rid r. substitute (names ! rid) (Variable Int32 (fresh rid) (Some rd_new)) r)
          [0 ..< length names] e"

definition back_to_args :: "string list \<Rightarrow> string list \<Rightarrow> Expr \<Rightarrow> Expr" where
  \<comment> \<open>\<^verbatim>\<open>e = substitute(new_args[arg_id].name(), func_to_update_args[arg_id], e)\<close> for
     every \<open>arg_id\<close> in turn\<close>
  "back_to_args new_args xs e =
     fold (\<lambda>arg_id r. substitute (new_args ! arg_id) (Var_expr (xs ! arg_id)) r)
          [0 ..< length xs] e"

definition merge_rdoms ::
  "Externals \<Rightarrow> rdom_store \<Rightarrow> ptr \<Rightarrow> (nat \<Rightarrow> string) \<Rightarrow> string list \<Rightarrow> string list \<Rightarrow>
   (string \<times> ReductionVariableInfo) list \<Rightarrow> (string \<times> ReductionVariableInfo) list \<Rightarrow>
   Expr list \<times> Expr \<Rightarrow> error + (Expr list \<times> Expr) \<times> rdom_store \<times> ptr option" where
  \<comment> \<open>returns \<^verbatim>\<open>lhs\<close> and \<^verbatim>\<open>adjoint\<close>, the store with the merged domain in it, and
     \<^verbatim>\<open>merged_r\<close> (undefined when there is no reduction variable)\<close>
  "merge_rdoms X store rd_new fresh new_args xs rvar_maps org_rvar_maps la =
     (let names = var_names rvar_maps org_rvar_maps;
          ranges = merged_bounds rvar_maps org_rvar_maps
      in if ranges = [] then Inr (la, store, None)
         else
           (case conjoin_predicates X store (rdoms_of rvar_maps) const_true of
              Inl e \<Rightarrow> Inl e
            | Inr p \<Rightarrow>
                let merged = RDom_new fresh ranges;
                    adjoint = rename_to_merged rd_new fresh names (snd la);
                    lhs = map (rename_to_merged rd_new fresh names) (fst la);
                    rdom_predicate = rename_to_merged rd_new fresh names p
                in if \<not> is_const X rdom_predicate
                   then Inr ((lhs, adjoint),
                             store(rd_new \<mapsto> RDom_where X (back_to_args new_args xs rdom_predicate)
                                                merged),
                             Some rd_new)
                   else Inr ((lhs, adjoint), store(rd_new \<mapsto> merged), Some rd_new)))"

section \<open>An instance of the external collaborators, for concrete evaluations\<close>

text \<open>
  Modelled from the spec: the external collaborators of section 6, in the simplest
  form that behaves as the spec describes them on the examples evaluated below. The
  simplifier folds constants, knows that \<open>e \<noteq> e\<close> is false and that \<open>e \<noteq> e + c\<close> is true
  for a constant \<open>c\<close> other than 0, and absorbs constant operands of \<open>||\<close> and \<open>&&\<close>; it is
  idempotent on those forms. The prover accepts what simplifies to the constant true.
  The expression sorter lists a value's nodes operands first (post-order), each node
  once, without entering the arguments of a call to a function or image. The bounds of
  a variable bound in the scope are its interval, the bounds of a sum are the sums of
  the bounds, and any other expression is its own lower and upper bound; two boxes
  overlap unless, in some dimension, the constant upper bound of one lies below the
  constant lower bound of the other. The examples have no let bindings, so
  \<open>substitute_in_all_lets\<close> has nothing to do.
\<close>

fun int_imm :: "Expr \<Rightarrow> int option" where
  "int_imm (IntImm t v) = Some v"
| "int_imm e = None"

fun float_imm :: "Expr \<Rightarrow> rat option" where
  "float_imm (FloatImm t v) = Some v"
| "float_imm e = None"

definition fold_arith ::
  "(int \<Rightarrow> int \<Rightarrow> int) \<Rightarrow> (rat \<Rightarrow> rat \<Rightarrow> rat) \<Rightarrow> (Expr \<Rightarrow> Expr \<Rightarrow> Expr) \<Rightarrow> Expr \<Rightarrow> Expr \<Rightarrow> Expr" where
  "fold_arith fi ff mk a b =
     (case (int_imm a, int_imm b) of
        (Some x, Some y) \<Rightarrow> IntImm (type_of a) (fi x y)
      | _ \<Rightarrow>
          (case (float_imm a, float_imm b) of
             (Some x, Some y) \<Rightarrow> FloatImm (type_of a) (ff x y)
           | _ \<Rightarrow> mk a b))"

definition plus_const :: "Expr \<Rightarrow> (Expr \<times> int) option" where
  "plus_const e =
     (case e of
        Add a b \<Rightarrow> (case int_imm b of None \<Rightarrow> None | Some c \<Rightarrow> Some (a, c))
      | _ \<Rightarrow> None)"

definition fold_NE :: "Expr \<Rightarrow> Expr \<Rightarrow> Expr" where
  "fold_NE a b =
     (if a = b then const_false
      else case plus_const b of
             None \<Rightarrow> NE a b
           | Some (a', c) \<Rightarrow> if a' = a \<and> c \<noteq> 0 then const_true else NE a b)"

definition fold_Or :: "Expr \<Rightarrow> Expr \<Rightarrow> Expr" where
  "fold_Or a b =
     (if a = const_true \<or> b = const_true then const_true
      else if a = const_false then b
      else if b = const_false then a
      else Or a b)"

definition fold_And :: "Expr \<Rightarrow> Expr \<Rightarrow> Expr" where
  "fold_And a b =
     (if a = const_false \<or> b = const_false then const_false
      else if a = const_true then b
      else if b = const_true then a
      else And a b)"

fun basic_simplify :: "Expr \<Rightarrow> Expr" where
  "basic_simplify (IntImm t v) = IntImm t v"
| "basic_simplify (UIntImm t v) = UIntImm t v"
| "basic_simplify (FloatImm t v) = FloatImm t v"
| "basic_simplify (Cast t e) = Cast t (basic_simplify e)"
| "basic_simplify (Variable t n d) = Variable t n d"
| "basic_simplify (Add a b) = fold_arith (+) (+) Add (basic_simplify a) (basic_simplify b)"
| "basic_simplify (Sub a b) = fold_arith (-) (-) Sub (basic_simplify a) (basic_simplify b)"
| "basic_simplify (Mul a b) = fold_arith (*) (*) Mul (basic_simplify a) (basic_simplify b)"
| "basic_simplify (Div a b) = Div (basic_simplify a) (basic_simplify b)"
| "basic_simplify (Mod a b) = Mod (basic_simplify a) (basic_simplify b)"
| "basic_simplify (Min_expr a b) = Min_expr (basic_simplify a) (basic_simplify b)"
| "basic_simplify (Max_expr a b) = Max_expr (basic_simplify a) (basic_simplify b)"
| "basic_simplify (EQ a b) = EQ (basic_simplify a) (basic_simplify b)"
| "basic_simplify (NE a b) = fold_NE (basic_simplify a) (basic_simplify b)"
| "basic_simplify (LT a b) = LT (basic_simplify a) (basic_simplify b)"
| "basic_simplify (LE a b) = LE (basic_simplify a) (basic_simplify b)"
| "basic_simplify (GT a b) = GT (basic_simplify a) (basic_simplify b)"
| "basic_simplify (GE a b) = GE (basic_simplify a) (basic_simplify b)"
| "basic_simplify (And a b) = fold_And (basic_simplify a) (basic_simplify b)"
| "basic_simplify (Or a b) = fold_Or (basic_simplify a) (basic_simplify b)"
| "basic_simplify (Not_expr a) = Not_expr (basic_simplify a)"
| "basic_simplify (Select c a b) =
     Select (basic_simplify c) (basic_simplify a) (basic_simplify b)"
| "basic_simplify (Let_expr n v b) = Let_expr n (basic_simplify v) (basic_simplify b)"
| "basic_simplify (Call t n args ct f i) = Call t n (map basic_simplify args) ct f i"

fun basic_is_const_value :: "Expr \<Rightarrow> int \<Rightarrow> bool" where
  "basic_is_const_value (IntImm t v) c = (v = c)"
| "basic_is_const_value (UIntImm t v) c = (int v = c)"
| "basic_is_const_value (FloatImm t v) c = (v = of_int c)"
| "basic_is_const_value e c = False"

fun basic_is_const :: "Expr \<Rightarrow> bool" where
  "basic_is_const (IntImm t v) = True"
| "basic_is_const (UIntImm t v) = True"
| "basic_is_const (FloatImm t v) = True"
| "basic_is_const e = False"

fun calls_of :: "Expr \<Rightarrow> (string \<times> CallType) list" where
  "calls_of (IntImm t v) = []"
| "calls_of (UIntImm t v) = []"
| "calls_of (FloatImm t v) = []"
| "calls_of (Cast t e) = calls_of e"
| "calls_of (Variable t n d) = []"
| "calls_of (Add a b) = calls_of a @ calls_of b"
| "calls_of (Sub a b) = calls_of a @ calls_of b"
| "calls_of (Mul a b) = calls_of a @ calls_of b"
| "calls_of (Div a b) = calls_of a @ calls_of b"
| "calls_of (Mod a b) = calls_of a @ calls_of b"
| "calls_of (Min_expr a b) = calls_of a @ calls_of b"
| "calls_of (Max_expr a b) = calls_of a @ calls_of b"
| "calls_of (EQ a b) = calls_of a @ calls_of b"
| "calls_of (NE a b) = calls_of a @ calls_of b"
| "calls_of (LT a b) = calls_of a @ calls_of b"
| "calls_of (LE a b) = calls_of a @ calls_of b"
| "calls_of (GT a b) = calls_of a @ calls_of b"
| "calls_of (GE a b) = calls_of a @ calls_of b"
| "calls_of (And a b) = calls_of a @ calls_of b"
| "calls_of (Or a b) = calls_of a @ calls_of b"
| "calls_of (Not_expr a) = calls_of a"
| "calls_of (Select c a b) = calls_of c @ calls_of a @ calls_of b"
| "calls_of (Let_expr n v b) = calls_of v @ calls_of b"
| "calls_of (Call t n args ct f i) = (n, ct) # concat (map calls_of args)"

fun postorder :: "IRNode \<Rightarrow> IRNode list" where
  "postorder (IntImm_at p t v) = [IntImm_at p t v]"
| "postorder (UIntImm_at p t v) = [UIntImm_at p t v]"
| "postorder (FloatImm_at p t v) = [FloatImm_at p t v]"
| "postorder (Cast_at p t e) = postorder e @ [Cast_at p t e]"
| "postorder (Variable_at p t n d) = [Variable_at p t n d]"
| "postorder (Add_at p a b) = postorder a @ postorder b @ [Add_at p a b]"
| "postorder (Sub_at p a b) = postorder a @ postorder b @ [Sub_at p a b]"
| "postorder (Mul_at p a b) = postorder a @ postorder b @ [Mul_at p a b]"
| "postorder (Div_at p a b) = postorder a @ postorder b @ [Div_at p a b]"
| "postorder (Mod_at p a b) = postorder a @ postorder b @ [Mod_at p a b]"
| "postorder (Min_at p a b) = postorder a @ postorder b @ [Min_at p a b]"
| "postorder (Max_at p a b) = postorder a @ postorder b @ [Max_at p a b]"
| "postorder (EQ_at p a b) = postorder a @ postorder b @ [EQ_at p a b]"
| "postorder (NE_at p a b) = postorder a @ postorder b @ [NE_at p a b]"
| "postorder (LT_at p a b) = postorder a @ postorder b @ [LT_at p a b]"
| "postorder (LE_at p a b) = postorder a @ postorder b @ [LE_at p a b]"
| "postorder (GT_at p a b) = postorder a @ postorder b @ [GT_at p a b]"
| "postorder (GE_at p a b) = postorder a @ postorder b @ [GE_at p a b]"
| "postorder (And_at p a b) = postorder a @ postorder b @ [And_at p a b]"
| "postorder (Or_at p a b) = postorder a @ postorder b @ [Or_at p a b]"
| "postorder (Not_at p a) = postorder a @ [Not_at p a]"
| "postorder (Select_at p c a b) =
     postorder c @ postorder a @ postorder b @ [Select_at p c a b]"
| "postorder (Let_at p n v b) = postorder v @ postorder b @ [Let_at p n v b]"
| "postorder (Call_at p t n args ct f i) =
     (if ct = Halide \<or> ct = Image then [] else concat (map postorder args))
     @ [Call_at p t n args ct f i]"

fun once :: "IRNode list \<Rightarrow> ptr list \<Rightarrow> IRNode list" where
  \<comment> \<open>keeps the first occurrence of every node\<close>
  "once [] seen = []"
| "once (n # ns) seen = (if get n \<in> set seen then once ns seen else n # once ns (get n # seen))"

fun replace_expr :: "Expr \<Rightarrow> Expr \<Rightarrow> Expr \<Rightarrow> Expr" where
  "replace_expr f r (IntImm t v) = (if IntImm t v = f then r else IntImm t v)"
| "replace_expr f r (UIntImm t v) = (if UIntImm t v = f then r else UIntImm t v)"
| "replace_expr f r (FloatImm t v) = (if FloatImm t v = f then r else FloatImm t v)"
| "replace_expr f r (Cast t e) = (if Cast t e = f then r else Cast t (replace_expr f r e))"
| "replace_expr f r (Variable t n d) = (if Variable t n d = f then r else Variable t n d)"
| "replace_expr f r (Add a b) =
     (if Add a b = f then r else Add (replace_expr f r a) (replace_expr f r b))"
| "replace_expr f r (Sub a b) =
     (if Sub a b = f then r else Sub (replace_expr f r a) (replace_expr f r b))"
| "replace_expr f r (Mul a b) =
     (if Mul a b = f then r else Mul (replace_expr f r a) (replace_expr f r b))"
| "replace_expr f r (Div a b) =
     (if Div a b = f then r else Div (replace_expr f r a) (replace_expr f r b))"
| "replace_expr f r (Mod a b) =
     (if Mod a b = f then r else Mod (replace_expr f r a) (replace_expr f r b))"
| "replace_expr f r (Min_expr a b) =
     (if Min_expr a b = f then r else Min_expr (replace_expr f r a) (replace_expr f r b))"
| "replace_expr f r (Max_expr a b) =
     (if Max_expr a b = f then r else Max_expr (replace_expr f r a) (replace_expr f r b))"
| "replace_expr f r (EQ a b) =
     (if EQ a b = f then r else EQ (replace_expr f r a) (replace_expr f r b))"
| "replace_expr f r (NE a b) =
     (if NE a b = f then r else NE (replace_expr f r a) (replace_expr f r b))"
| "replace_expr f r (LT a b) =
     (if LT a b = f then r else LT (replace_expr f r a) (replace_expr f r b))"
| "replace_expr f r (LE a b) =
     (if LE a b = f then r else LE (replace_expr f r a) (replace_expr f r b))"
| "replace_expr f r (GT a b) =
     (if GT a b = f then r else GT (replace_expr f r a) (replace_expr f r b))"
| "replace_expr f r (GE a b) =
     (if GE a b = f then r else GE (replace_expr f r a) (replace_expr f r b))"
| "replace_expr f r (And a b) =
     (if And a b = f then r else And (replace_expr f r a) (replace_expr f r b))"
| "replace_expr f r (Or a b) =
     (if Or a b = f then r else Or (replace_expr f r a) (replace_expr f r b))"
| "replace_expr f r (Not_expr a) = (if Not_expr a = f then r else Not_expr (replace_expr f r a))"
| "replace_expr f r (Select c a b) =
     (if Select c a b = f then r
      else Select (replace_expr f r c) (replace_expr f r a) (replace_expr f r b))"
| "replace_expr f r (Let_expr n v b) =
     (if Let_expr n v b = f then r else Let_expr n (replace_expr f r v) (replace_expr f r b))"
| "replace_expr f r (Call t n args ct fn i) =
     (if Call t n args ct fn i = f then r else Call t n (map (replace_expr f r) args) ct fn i)"

fun basic_bounds :: "Interval Scope \<Rightarrow> Expr \<Rightarrow> Interval" where
  "basic_bounds scope (Variable t n d) =
     (case Scope_get scope n of
        Inl e \<Rightarrow> Interval (Variable t n d) (Variable t n d)
      | Inr i \<Rightarrow> i)"
| "basic_bounds scope (Add a b) =
     Interval (basic_simplify (Add (i_min (basic_bounds scope a)) (i_min (basic_bounds scope b))))
              (basic_simplify (Add (i_max (basic_bounds scope a)) (i_max (basic_bounds scope b))))"
| "basic_bounds scope e = Interval e e"

definition provably_below :: "Expr \<Rightarrow> Expr \<Rightarrow> bool" where
  "provably_below a b =
     (case (int_imm a, int_imm b) of
        (Some x, Some y) \<Rightarrow> x < y
      | _ \<Rightarrow> False)"

definition basic_boxes_overlap :: "Box \<Rightarrow> Box \<Rightarrow> bool" where
  "basic_boxes_overlap a b =
     (\<not> list_ex (\<lambda>(i, j). provably_below (i_max i) (i_min j) \<or> provably_below (i_max j) (i_min i))
          (zip a b))"

definition basic_externals :: Externals where
  "basic_externals =
     \<lparr>simplify = basic_simplify,
      can_prove = (\<lambda>e. basic_simplify e = const_true),
      is_const = basic_is_const,
      is_const_value = basic_is_const_value,
      extract_rdom = (\<lambda>e. case rvar_occurrences e of [] \<Rightarrow> None | (n, d) # occs \<Rightarrow> Some d),
      bounds_of_expr_in_scope = (\<lambda>e scope. basic_bounds scope e),
      boxes_overlap = basic_boxes_overlap,
      sort_expressions = (\<lambda>e. once (postorder e) []),
      is_calling_function_named =
        (\<lambda>name e lets. (name, Halide) \<in> set (calls_of e)
                      \<or> (\<exists>(n, v) \<in> set lets. n \<in> vars_of e \<and> (name, Halide) \<in> set (calls_of (expr_of v)))),
      is_calling_function =
        (\<lambda>e lets. (\<exists>(n, ct) \<in> set (calls_of e). ct = Halide \<or> ct = Image)
                 \<or> (\<exists>(n, v) \<in> set lets. n \<in> vars_of e
                       \<and> (\<exists>(n, ct) \<in> set (calls_of (expr_of v)). ct = Halide \<or> ct = Image))),
      and_condition_over_domain = (\<lambda>c varying. basic_simplify c),
      add_let_expression =
        (\<lambda>e lets names.
           fold (\<lambda>n r. if n \<in> vars_of r
                        then (case map_of lets n of
                                None \<Rightarrow> r
                              | Some v \<Rightarrow> Let_expr n (expr_of v) r)
                        else r)
                names e),
      substitute_in_all_lets = (\<lambda>e. e),
      substitute_expr = replace_expr,
      realization_funcs = (\<lambda>output. [output])\<rparr>"

section \<open>Example functions\<close>

text \<open>
  The functions of the comments at lines 112 to 208 of \<^verbatim>\<open>Derivative.cpp\<close>, over a
  producer \<^verbatim>\<open>g(x) = 1\<close> and the reduction domain \<^verbatim>\<open>r\<close> of one variable over 0 to 9:
  \<open>example_sum\<close> is \<^verbatim>\<open>f(x) = 0; f(x) = f(x) + g(r.x)\<close>, \<open>example_scale\<close> is
  \<^verbatim>\<open>f(x) = 0; f(x) = 2 * f(x) + g(r.x)\<close>, \<open>example_scan\<close> is
  \<^verbatim>\<open>f(x, y) = 0; f(x, r.x + 1) = 2 * f(x, r.x) + g(r.x)\<close> and \<open>example_square\<close> is
  \<^verbatim>\<open>f(x) = g(x); f(x) = f(x) * f(x)\<close>; \<open>example_versions\<close> is
  \<^verbatim>\<open>f(x, y) = 0; f(x, 0) = g(x); f(x, 1) = f(x, 0) * f(x, 0)\<close>, whose two updates do
  not overlap; \<open>example_split\<close> is
  \<^verbatim>\<open>f(x, y) = 0; f(x, r.x) = g(x); f(x, 10) = f(x, 9) * f(x, 9)\<close>, whose first update
  writes the rows 0 to 9 and whose second update writes row 10. \<open>no_scatter\<close> stands in
  for the scatter step, which the detection phase never reaches. \<open>example_compare\<close> is a
  value with a comparison in it, \<open>visit_order\<close> the order in which the loop of lines 256
  to 259 visits the nodes of a value, and \<open>seeded\<close> the visitor as that loop starts.
\<close>

definition example_store :: rdom_store where
  "example_store =
     [7 \<mapsto> \<lparr>rd_domain = [\<lparr>rv_var = ''r$x'', rv_min = IntImm Int32 0, rv_extent = IntImm Int32 10\<rparr>],
            rd_predicate = const_true\<rparr>]"

definition example_g :: Function where
  "example_g =
     \<lparr>f_name = ''g'', f_contents = 200, f_args = [''x''],
      f_values = [FloatImm_at 20 Float32 1], f_updates = []\<rparr>"

definition example_sum :: Function where
  "example_sum =
     \<lparr>f_name = ''f'', f_contents = 100, f_args = [''x''],
      f_values = [FloatImm_at 21 Float32 0],
      f_updates =
        [\<lparr>d_args = [Variable Int32 ''x'' None],
          d_values =
            [Add_at 5
               (Call_at 2 Float32 ''f'' [Variable_at 10 Int32 ''x'' None] Halide (Some 100) 0)
               (Call_at 4 Float32 ''g'' [Variable_at 11 Int32 ''r$x'' (Some 7)] Halide (Some 200) 0)],
          d_rvars = [\<lparr>rv_var = ''r$x'', rv_min = IntImm Int32 0, rv_extent = IntImm Int32 10\<rparr>]\<rparr>]\<rparr>"

definition example_scale :: Function where
  "example_scale =
     \<lparr>f_name = ''f'', f_contents = 100, f_args = [''x''],
      f_values = [FloatImm_at 21 Float32 0],
      f_updates =
        [\<lparr>d_args = [Variable Int32 ''x'' None],
          d_values =
            [Add_at 5
               (Mul_at 3 (FloatImm_at 1 Float32 2)
                  (Call_at 2 Float32 ''f'' [Variable_at 10 Int32 ''x'' None] Halide (Some 100) 0))
               (Call_at 4 Float32 ''g'' [Variable_at 11 Int32 ''r$x'' (Some 7)] Halide (Some 200) 0)],
          d_rvars = [\<lparr>rv_var = ''r$x'', rv_min = IntImm Int32 0, rv_extent = IntImm Int32 10\<rparr>]\<rparr>]\<rparr>"

definition example_scan :: Function where
  "example_scan =
     \<lparr>f_name = ''f'', f_contents = 100, f_args = [''x'', ''y''],
      f_values = [FloatImm_at 21 Float32 0],
      f_updates =
        [\<lparr>d_args = [Variable Int32 ''x'' None,
                    Add (Variable Int32 ''r$x'' (Some 7)) (IntImm Int32 1)],
          d_values =
            [Add_at 5
               (Mul_at 3 (FloatImm_at 1 Float32 2)
                  (Call_at 2 Float32 ''f''
                     [Variable_at 10 Int32 ''x'' None, Variable_at 12 Int32 ''r$x'' (Some 7)]
                     Halide (Some 100) 0))
               (Call_at 4 Float32 ''g'' [Variable_at 11 Int32 ''r$x'' (Some 7)] Halide (Some 200) 0)],
          d_rvars = [\<lparr>rv_var = ''r$x'', rv_min = IntImm Int32 0, rv_extent = IntImm Int32 10\<rparr>]\<rparr>]\<rparr>"

definition no_scatter :: "IRNode \<Rightarrow> Expr \<Rightarrow> Expr list \<Rightarrow> Visitor \<Rightarrow> error + Visitor" where
  "no_scatter op adjoint lhs s = Inr s"

definition example_square :: Function where
  "example_square =
     \<lparr>f_name = ''f'', f_contents = 100, f_args = [''x''],
      f_values = [Call_at 21 Float32 ''g'' [Variable_at 13 Int32 ''x'' None] Halide (Some 200) 0],
      f_updates =
        [\<lparr>d_args = [Variable Int32 ''x'' None],
          d_values =
            [Mul_at 3
               (Call_at 1 Float32 ''f'' [Variable_at 10 Int32 ''x'' None] Halide (Some 100) 0)
               (Call_at 2 Float32 ''f'' [Variable_at 11 Int32 ''x'' None] Halide (Some 100) 0)],
          d_rvars = []\<rparr>]\<rparr>"

definition example_versions :: Function where
  "example_versions =
     \<lparr>f_name = ''f'', f_contents = 100, f_args = [''x'', ''y''],
      f_values = [FloatImm_at 21 Float32 0],
      f_updates =
        [\<lparr>d_args = [Variable Int32 ''x'' None, IntImm Int32 0],
          d_values = [Call_at 4 Float32 ''g'' [Variable_at 12 Int32 ''x'' None] Halide (Some 200) 0],
          d_rvars = []\<rparr>,
         \<lparr>d_args = [Variable Int32 ''x'' None, IntImm Int32 1],
          d_values =
            [Mul_at 3
               (Call_at 1 Float32 ''f''
                  [Variable_at 10 Int32 ''x'' None, IntImm_at 14 Int32 0] Halide (Some 100) 0)
               (Call_at 2 Float32 ''f''
                  [Variable_at 11 Int32 ''x'' None, IntImm_at 15 Int32 0] Halide (Some 100) 0)],
          d_rvars = []\<rparr>]\<rparr>"

definition example_split :: Function where
  "example_split =
     \<lparr>f_name = ''f'', f_contents = 100, f_args = [''x'', ''y''],
      f_values = [FloatImm_at 21 Float32 0],
      f_updates =
        [\<lparr>d_args = [Variable Int32 ''x'' None, Variable Int32 ''r$x'' (Some 7)],
          d_values = [Call_at 4 Float32 ''g'' [Variable_at 12 Int32 ''x'' None] Halide (Some 200) 0],
          d_rvars = [\<lparr>rv_var = ''r$x'', rv_min = IntImm Int32 0, rv_extent = IntImm Int32 10\<rparr>]\<rparr>,
         \<lparr>d_args = [Variable Int32 ''x'' None, IntImm Int32 10],
          d_values =
            [Mul_at 3
               (Call_at 1 Float32 ''f''
                  [Variable_at 10 Int32 ''x'' None, IntImm_at 14 Int32 9] Halide (Some 100) 0)
               (Call_at 2 Float32 ''f''
                  [Variable_at 11 Int32 ''x'' None, IntImm_at 15 Int32 9] Halide (Some 100) 0)],
          d_rvars = []\<rparr>]\<rparr>"

definition domain_box :: "Expr \<Rightarrow> ReductionVariable \<Rightarrow> Box" where
  \<comment> \<open>the index ranges that \<^verbatim>\<open>f(x, r)\<close> writes: \<open>x\<close>, and \<open>r\<close> from its minimum to its maximum
     \<^verbatim>\<open>min + extent - 1\<close>\<close>
  "domain_box x r =
     [Interval x x,
      Interval (rv_min r)
        (basic_simplify (Sub (Add (rv_min r) (rv_extent r)) (make_const (type_of (rv_min r)) 1)))]"

definition detecting :: "Function \<Rightarrow> Visitor" where
  \<comment> \<open>the visitor as it enters the loop over the updates of \<open>func\<close>\<close>
  "detecting func = (Visitor_new func)\<lparr>is_forward_overwrite_detection_phase := True\<rparr>"






definition example_boxes :: "Function \<Rightarrow> Box list" where
  "example_boxes func = projr (update_boxes basic_externals example_store func)"

definition traversed :: "Function \<Rightarrow> nat \<Rightarrow> Visitor" where
  \<comment> \<open>the visitor after the expression-level pass of one update of \<open>func\<close>\<close>
  "traversed func update_id =
     projr (detect_traverse basic_externals no_scatter func (f_updates func ! update_id)
              (detecting func))"

definition pushed_to :: "ptr \<Rightarrow> (IRNode \<times> Expr) list \<Rightarrow> Expr list" where
  \<comment> \<open>the adjoints that a sequence of \<^verbatim>\<open>accumulate\<close> calls pushes to the node at \<open>p\<close>\<close>
  "pushed_to p cs = map snd (filter (\<lambda>c. get (fst c) = p) cs)"

definition Function_stub :: "string \<Rightarrow> ptr \<Rightarrow> Function" where
  \<comment> \<open>a function of one pure variable with no values yet, for concrete evaluations\<close>
  "Function_stub name c =
     \<lparr>f_name = name, f_contents = c, f_args = [''x''], f_values = [], f_updates = []\<rparr>"

section \<open>Properties of Scope\<close>

lemma SmallStack_push_not_empty: "\<not> s_empty (SmallStack_push v st)"
  by (simp add: SmallStack_push_def)

lemma tables_agree_new: "tables_agree (Scope Map.empty Map.empty cs)"
  by (simp add: tables_agree_def)

lemma tables_agree_push: "tables_agree s \<Longrightarrow> tables_agree (Scope_push name v s)"
  by (auto simp: tables_agree_def Scope_push_def table_push_def SmallStack_push_not_empty)

lemma tables_agree_pop:
  "tables_agree s \<Longrightarrow> Scope_pop name s = Inr s' \<Longrightarrow> tables_agree s'"
  by (auto simp: tables_agree_def Scope_pop_def table_pop_def Let_def split: if_splits)

lemma tables_agree_replace:
  "tables_agree s \<Longrightarrow> Scope_replace name v s = Inr s' \<Longrightarrow> tables_agree s'"
  by (auto simp: tables_agree_def Scope_replace_def SmallStack_set_top_def split: if_splits)

lemma tables_agree_step:
  "tables_agree s \<Longrightarrow> scope_step x s = Inr s' \<Longrightarrow> tables_agree s'"
  by (cases x) (auto intro: tables_agree_push tables_agree_pop tables_agree_replace)

lemma tables_agree_run:
  "tables_agree s \<Longrightarrow> scope_run xs s = Inr s' \<Longrightarrow> tables_agree s'"
proof (induction xs arbitrary: s)
  case Nil
  then show ?case by simp
next
  case (Cons x xs)
  then obtain s1 where s1: "scope_step x s = Inr s1" and run: "scope_run xs s1 = Inr s'"
    by (auto split: sum.splits)
  from Cons.prems(1) s1 have "tables_agree s1" by (rule tables_agree_step)
  with run show ?case by (rule Cons.IH[rotated])
qed

text \<open>
  Claim C10. Starting from an empty scope (with or without a containing scope), after any
  sequence of \<^verbatim>\<open>push\<close>, \<^verbatim>\<open>pop\<close> and \<^verbatim>\<open>replace\<close> calls that does not abort, the
  ordered table and the unordered table are the same map from names to binding stacks,
  and no stack stored in them is empty. Hence the lookups of \<^verbatim>\<open>get\<close>, \<^verbatim>\<open>contains\<close>,
  \<^verbatim>\<open>replace\<close> and of the iterator find the same thing in either table.
\<close>

theorem scope_tables_agree:
  assumes "scope_run ops (Scope Map.empty Map.empty cs) = Inr s"
  shows "m_table s = o_table s \<and> (\<forall>name st. o_table s name = Some st \<longrightarrow> \<not> s_empty st)"
  using tables_agree_run[OF tables_agree_new assms] by (simp add: tables_agree_def)

theorem scope_tables_agree_witness:
  "(case scope_run [Push ''x'' 1, Push ''x'' 2, Pop ''x'', Replace ''x'' 5, Push ''y'' 3, Pop ''y'']
          (Scope Map.empty Map.empty None :: int Scope) of
      Inl e \<Rightarrow> False
    | Inr s \<Rightarrow> m_table s = o_table s
        \<and> o_table s ''x'' = Some \<lparr>s_top = 5, s_rest = [], s_empty = False\<rparr>
        \<and> o_table s ''y'' = None)"
proof -
  let ?ops = "[Push ''x'' 1, Push ''x'' 2, Pop ''x'', Replace ''x'' 5, Push ''y'' 3, Pop ''y'']
                :: int scope_op list"
  obtain s where run: "scope_run ?ops (Scope Map.empty Map.empty None) = Inr s"
    and x: "o_table s ''x'' = Some \<lparr>s_top = 5, s_rest = [], s_empty = False\<rparr>"
    and y: "o_table s ''y'' = None"
    by (simp add: Scope_push_def Scope_pop_def Scope_replace_def table_push_def table_pop_def
        SmallStack_push_def SmallStack_pop_def SmallStack_new_def SmallStack_set_top_def Let_def)
  from scope_tables_agree[OF run] x y run show ?thesis by simp
qed

section \<open>Properties of accumulate and of the visit methods\<close>

lemma adj_find_adj_set:
  "adj_find (adj_set k v m) p = (if p = get k then Some v else adj_find m p)"
  by (induction m) auto

lemma adj_find_accumulate:
  "adj_find (expr_adjoints (accumulate stub c s)) p =
     (if p = get stub then
        (case adj_find (expr_adjoints s) p of
           None \<Rightarrow> Some c
         | Some old \<Rightarrow> Some (plus_assign old c))
      else adj_find (expr_adjoints s) p)"
  by (auto simp: accumulate_def adj_find_adj_set split: option.splits)

lemma adj_find_accumulate_all:
  "adj_find (expr_adjoints (accumulate_all cs s)) p =
     (case adj_find (expr_adjoints s) p of
        None \<Rightarrow>
          (case pushed_to p cs of [] \<Rightarrow> None | c # rest \<Rightarrow> Some (foldl plus_assign c rest))
      | Some old \<Rightarrow> Some (foldl plus_assign old (pushed_to p cs)))"
proof (induction cs arbitrary: s)
  case Nil
  then show ?case by (simp add: pushed_to_def split: option.splits)
next
  case (Cons x cs)
  obtain stub c where x: "x = (stub, c)" by (cases x)
  show ?case
    by (simp add: x Cons.IH adj_find_accumulate pushed_to_def split: option.splits)
qed

lemma type_of_foldl_plus_assign: "type_of (foldl plus_assign c rest) = type_of c"
  by (induction rest arbitrary: c) (auto simp: plus_assign_def)

lemma eval_foldl_plus_assign:
  "\<forall>d \<in> set rest. type_of d = type_of c \<Longrightarrow>
   eval I env (foldl plus_assign c rest) = eval I env c + sum_list (map (eval I env) rest)"
proof (induction rest arbitrary: c)
  case Nil
  then show ?case by simp
next
  case (Cons d rest)
  have "\<forall>x \<in> set rest. type_of x = type_of (plus_assign c d)"
    using Cons.prems by (simp add: plus_assign_def)
  from Cons.IH[OF this] Cons.prems show ?case
    by (simp add: plus_assign_def cast_def)
qed

lemma eval_make_const_0: "eval I env (make_const t 0) = 0"
  by (cases t) (auto simp: make_const_def split: halide_type_code_t.splits)

text \<open>
  Accumulation is additive. Take any sequence of \<^verbatim>\<open>accumulate\<close> calls on a map that has
  no entry for node \<open>n\<close> yet, in which the adjoints pushed to \<open>n\<close> are \<open>c\<close> followed by
  \<open>rest\<close>. Afterwards the entry of \<open>n\<close> is \<open>c\<close> with every later adjoint added by \<^verbatim>\<open>+=\<close>
  in turn, and (the adjoints being of one type) its value at any point is the sum of
  the values of all of them.
\<close>

lemma accumulate_is_additive:
  assumes "adj_find (expr_adjoints s) (get n) = None"
    and "pushed_to (get n) cs = c # rest"
  shows "adj_find (expr_adjoints (accumulate_all cs s)) (get n) = Some (foldl plus_assign c rest)
       \<and> ((\<forall>d \<in> set rest. type_of d = type_of c) \<longrightarrow>
            eval I env (foldl plus_assign c rest)
              = eval I env c + sum_list (map (eval I env) rest))"
  using assms by (simp add: adj_find_accumulate_all eval_foldl_plus_assign)

lemma accumulate_is_additive_example:
  "adj_find
     (expr_adjoints
        (accumulate_all
           [(Variable_at 1 Float32 ''a'' None, FloatImm Float32 2),
            (Variable_at 2 Float32 ''b'' None, FloatImm Float32 7),
            (Variable_at 1 Float32 ''a'' None, Variable Float32 ''v'' None),
            (Variable_at 1 Float32 ''a'' None, FloatImm Float32 5)]
           (Visitor_new (Function_stub ''f'' 100)))) 1
     = Some (Add (Add (FloatImm Float32 2) (Variable Float32 ''v'' None)) (FloatImm Float32 5))
   \<and> eval exact_interp (\<lambda>x. 10)
        (Add (Add (FloatImm Float32 2) (Variable Float32 ''v'' None)) (FloatImm Float32 5))
      = 2 + (10 + 5)"
proof -
  let ?n = "Variable_at 1 Float32 ''a'' None"
  let ?cs = "[(?n, FloatImm Float32 2),
            (Variable_at 2 Float32 ''b'' None, FloatImm Float32 7),
            (?n, Variable Float32 ''v'' None),
            (?n, FloatImm Float32 5)]"
  have a: "adj_find (expr_adjoints (Visitor_new (Function_stub ''f'' 100))) (get ?n) = None"
    by (simp add: Visitor_new_def)
  have b: "pushed_to (get ?n) ?cs
             = FloatImm Float32 2 # [Variable Float32 ''v'' None, FloatImm Float32 5]"
    by (simp add: pushed_to_def)
  from accumulate_is_additive[OF a b, of exact_interp "\<lambda>x. 10"]
  show ?thesis by (simp add: plus_assign_def cast_def)
qed


text \<open>
  Claim C4, as the code has it. At a \<^verbatim>\<open>min(a, b)\<close> node with adjoint \<open>d\<close> the visit
  accumulates \<^verbatim>\<open>select(a <= b, d, 0)\<close> to operand \<open>a\<close> and then
  \<^verbatim>\<open>select(b <= a, d, 0)\<close> to operand \<open>b\<close>: at a point where the operands differ the
  smaller one receives \<open>d\<close> and the other one 0, and at a point where they are equal both
  receive \<open>d\<close>. When the operands are two nodes that have received nothing yet, these
  are their entries afterwards. The same holds at \<^verbatim>\<open>max(a, b)\<close> with \<^verbatim>\<open>>=\<close>.
\<close>

theorem min_max_adjoint_routing:
  assumes "adj_find (expr_adjoints s) p = Some d"
  shows "(\<exists>ca cb.
            visit_Min (Min_at p a b) a b s = Inr (accumulate b cb (accumulate a ca s))
          \<and> eval I env ca =
              (if eval I env (expr_of a) \<le> eval I env (expr_of b) then eval I env d else 0)
          \<and> eval I env cb =
              (if eval I env (expr_of b) \<le> eval I env (expr_of a) then eval I env d else 0)
          \<and> (get a \<noteq> get b \<and> adj_find (expr_adjoints s) (get a) = None
                \<and> adj_find (expr_adjoints s) (get b) = None \<longrightarrow>
               adj_find (expr_adjoints (accumulate b cb (accumulate a ca s))) (get a) = Some ca
             \<and> adj_find (expr_adjoints (accumulate b cb (accumulate a ca s))) (get b) = Some cb))
       \<and> (\<exists>ca cb.
            visit_Max (Max_at p a b) a b s = Inr (accumulate b cb (accumulate a ca s))
          \<and> eval I env ca =
              (if eval I env (expr_of a) \<ge> eval I env (expr_of b) then eval I env d else 0)
          \<and> eval I env cb =
              (if eval I env (expr_of b) \<ge> eval I env (expr_of a) then eval I env d else 0)
          \<and> (get a \<noteq> get b \<and> adj_find (expr_adjoints s) (get a) = None
                \<and> adj_find (expr_adjoints s) (get b) = None \<longrightarrow>
               adj_find (expr_adjoints (accumulate b cb (accumulate a ca s))) (get a) = Some ca
             \<and> adj_find (expr_adjoints (accumulate b cb (accumulate a ca s))) (get b) = Some cb))"
proof -
  let ?z = "make_const (type_of d) 0"
  let ?ca = "Select (LE (expr_of a) (expr_of b)) d ?z"
  let ?cb = "Select (LE (expr_of b) (expr_of a)) d ?z"
  let ?ca' = "Select (GE (expr_of a) (expr_of b)) d ?z"
  let ?cb' = "Select (GE (expr_of b) (expr_of a)) d ?z"
  have entries: "get a \<noteq> get b \<and> adj_find (expr_adjoints s) (get a) = None
                   \<and> adj_find (expr_adjoints s) (get b) = None \<longrightarrow>
                 adj_find (expr_adjoints (accumulate b cb (accumulate a ca s))) (get a) = Some ca
               \<and> adj_find (expr_adjoints (accumulate b cb (accumulate a ca s))) (get b) = Some cb"
    for ca cb
    by (simp add: adj_find_accumulate)
  have "visit_Min (Min_at p a b) a b s = Inr (accumulate b ?cb (accumulate a ?ca s))"
    using assms by (simp add: visit_Min_def adjoint_of_def)
  moreover have "eval I env ?ca =
      (if eval I env (expr_of a) \<le> eval I env (expr_of b) then eval I env d else 0)"
    by (simp add: eval_make_const_0 truth_def)
  moreover have "eval I env ?cb =
      (if eval I env (expr_of b) \<le> eval I env (expr_of a) then eval I env d else 0)"
    by (simp add: eval_make_const_0 truth_def)
  ultimately have min: "\<exists>ca cb.
            visit_Min (Min_at p a b) a b s = Inr (accumulate b cb (accumulate a ca s))
          \<and> eval I env ca =
              (if eval I env (expr_of a) \<le> eval I env (expr_of b) then eval I env d else 0)
          \<and> eval I env cb =
              (if eval I env (expr_of b) \<le> eval I env (expr_of a) then eval I env d else 0)
          \<and> (get a \<noteq> get b \<and> adj_find (expr_adjoints s) (get a) = None
                \<and> adj_find (expr_adjoints s) (get b) = None \<longrightarrow>
               adj_find (expr_adjoints (accumulate b cb (accumulate a ca s))) (get a) = Some ca
             \<and> adj_find (expr_adjoints (accumulate b cb (accumulate a ca s))) (get b) = Some cb)"
    using entries[of ?cb ?ca] by blast
  have "visit_Max (Max_at p a b) a b s = Inr (accumulate b ?cb' (accumulate a ?ca' s))"
    using assms by (simp add: visit_Max_def adjoint_of_def)
  moreover have "eval I env ?ca' =
      (if eval I env (expr_of a) \<ge> eval I env (expr_of b) then eval I env d else 0)"
    by (simp add: eval_make_const_0 truth_def)
  moreover have "eval I env ?cb' =
      (if eval I env (expr_of b) \<ge> eval I env (expr_of a) then eval I env d else 0)"
    by (simp add: eval_make_const_0 truth_def)
  ultimately have max: "\<exists>ca cb.
            visit_Max (Max_at p a b) a b s = Inr (accumulate b cb (accumulate a ca s))
          \<and> eval I env ca =
              (if eval I env (expr_of a) \<ge> eval I env (expr_of b) then eval I env d else 0)
          \<and> eval I env cb =
              (if eval I env (expr_of b) \<ge> eval I env (expr_of a) then eval I env d else 0)
          \<and> (get a \<noteq> get b \<and> adj_find (expr_adjoints s) (get a) = None
                \<and> adj_find (expr_adjoints s) (get b) = None \<longrightarrow>
               adj_find (expr_adjoints (accumulate b cb (accumulate a ca s))) (get a) = Some ca
             \<and> adj_find (expr_adjoints (accumulate b cb (accumulate a ca s))) (get b) = Some cb)"
    using entries[of ?cb' ?ca'] by blast
  from min max show ?thesis by (rule conjI)
qed

theorem min_max_adjoint_routing_witness:
  "(case visit_Min (Min_at 3 (Variable_at 1 Float32 ''x'' None) (Variable_at 2 Float32 ''y'' None))
           (Variable_at 1 Float32 ''x'' None) (Variable_at 2 Float32 ''y'' None)
           ((Visitor_new (Function_stub ''f'' 100))
              \<lparr>expr_adjoints :=
                 [(Min_at 3 (Variable_at 1 Float32 ''x'' None) (Variable_at 2 Float32 ''y'' None),
                   FloatImm Float32 1)]\<rparr>) of
      Inl e \<Rightarrow> None
    | Inr s' \<Rightarrow>
        Some (map_option (eval exact_interp (\<lambda>n. if n = ''x'' then 1 else 2))
                (adj_find (expr_adjoints s') 1),
              map_option (eval exact_interp (\<lambda>n. if n = ''x'' then 1 else 2))
                (adj_find (expr_adjoints s') 2)))
   = Some (Some 1, Some 0)"
proof -
  let ?a = "Variable_at 1 Float32 ''x'' None"
  let ?b = "Variable_at 2 Float32 ''y'' None"
  let ?s = "(Visitor_new (Function_stub ''f'' 100))
              \<lparr>expr_adjoints := [(Min_at 3 ?a ?b, FloatImm Float32 1)]\<rparr>"
  have 1: "adj_find (expr_adjoints ?s) 3 = Some (FloatImm Float32 1)" by simp
  have 2: "get ?a \<noteq> get ?b \<and> adj_find (expr_adjoints ?s) (get ?a) = None
             \<and> adj_find (expr_adjoints ?s) (get ?b) = None"
    by simp
  from min_max_adjoint_routing[OF 1, of ?a ?b exact_interp "\<lambda>n. if n = ''x'' then 1 else 2"] 2
  show ?thesis by auto
qed

text \<open>At a tie the adjoint does not go to the first operand only: with \<open>x = y = 3\<close> both
  operands of \<^verbatim>\<open>min(x, y)\<close>, and both operands of \<^verbatim>\<open>max(x, y)\<close>, receive the whole
  adjoint 1.\<close>

theorem min_max_tie_counterexample:
  "(case visit_Min (Min_at 3 (Variable_at 1 Float32 ''x'' None) (Variable_at 2 Float32 ''y'' None))
           (Variable_at 1 Float32 ''x'' None) (Variable_at 2 Float32 ''y'' None)
           ((Visitor_new (Function_stub ''f'' 100))
              \<lparr>expr_adjoints :=
                 [(Min_at 3 (Variable_at 1 Float32 ''x'' None) (Variable_at 2 Float32 ''y'' None),
                   FloatImm Float32 1)]\<rparr>) of
      Inl e \<Rightarrow> None
    | Inr s' \<Rightarrow>
        Some (map_option (eval exact_interp (\<lambda>n. 3)) (adj_find (expr_adjoints s') 1),
              map_option (eval exact_interp (\<lambda>n. 3)) (adj_find (expr_adjoints s') 2)))
   = Some (Some 1, Some 1)
   \<and>
   (case visit_Max (Max_at 3 (Variable_at 1 Float32 ''x'' None) (Variable_at 2 Float32 ''y'' None))
           (Variable_at 1 Float32 ''x'' None) (Variable_at 2 Float32 ''y'' None)
           ((Visitor_new (Function_stub ''f'' 100))
              \<lparr>expr_adjoints :=
                 [(Max_at 3 (Variable_at 1 Float32 ''x'' None) (Variable_at 2 Float32 ''y'' None),
                   FloatImm Float32 1)]\<rparr>) of
      Inl e \<Rightarrow> None
    | Inr s' \<Rightarrow>
        Some (map_option (eval exact_interp (\<lambda>n. 3)) (adj_find (expr_adjoints s') 1),
              map_option (eval exact_interp (\<lambda>n. 3)) (adj_find (expr_adjoints s') 2)))
   = Some (Some 1, Some 1)"
  by (simp add: visit_Min_def visit_Max_def adjoint_of_def accumulate_def make_const_def
      Float32_def truth_def Visitor_new_def)

section \<open>Properties of the flip of a non-overwriting scan\<close>























section \<open>Properties of the simplification rules of general scattering\<close>

lemma span_guard_False: "\<not> span_guard X rvar target"
  by (simp add: span_guard_def Let_def)

lemma downsample_rewrite_can_prove:
  "downsample_rewrite (X\<lparr>can_prove := cp\<rparr>) store lhs_arg a0 b0 x i la
     = downsample_rewrite X store lhs_arg a0 b0 x i la"
  by (simp add: downsample_rewrite_def Let_def cong: if_cong option.case_cong prod.case_cong)

lemma simplify_lhs_arg_can_prove:
  "simplify_lhs_arg (X\<lparr>can_prove := cp\<rparr>) store bounds target xs i la
     = simplify_lhs_arg X store bounds target xs i la"
  by (simp add: simplify_lhs_arg_def span_guard_False downsample_rewrite_can_prove Let_def
      cong: if_cong option.case_cong prod.case_cong)

text \<open>
  Claim C8. The rewrite of a coordinate that is a single reduction variable spanning the
  target's range into a pure variable is never applied. Its guard is false for every
  reduction variable, interval, simplifier and prover; a round of the loop on a
  coordinate that is a reduction variable (its domain in the store and without split
  predicate or with one, the bounds of the target known) returns the left-hand side
  and the adjoint as they were; and the whole simplification loop computes the same
  result whatever the prover answers, so the body of the rewrite is unreachable.
\<close>

theorem span_rewrite_unreachable:
  assumes "as_Variable (substitute_in_all_lets X (lhs ! i)) = Some (t, name, Some rd)"
    and "i < length lhs" and "i < length xs"
    and "store rd = Some c" and "find_rvar (rd_domain c) name = Some k"
    and "map_of bounds target = Some target_bounds" and "i < length target_bounds"
  shows "\<not> span_guard X rvar interval
       \<and> simplify_lhs_arg X store bounds target xs i (lhs, adjoint) = Inr (lhs, adjoint)
       \<and> general_scatter_simplification (X\<lparr>can_prove := cp\<rparr>) store bounds target xs (lhs', adjoint')
           = general_scatter_simplification X store bounds target xs (lhs', adjoint')"
proof -
  have "simplify_lhs_arg (X\<lparr>can_prove := cp\<rparr>) store bounds target xs
          = simplify_lhs_arg X store bounds target xs"
    by (intro ext) (rule simplify_lhs_arg_can_prove)
  then show ?thesis
    using assms
    by (simp add: span_guard_False general_scatter_simplification_def simplify_lhs_arg_def)
qed

theorem span_rewrite_unreachable_witness:
  "as_Variable (substitute_in_all_lets (basic_externals\<lparr>can_prove := (\<lambda>e. True)\<rparr>)
                  ([Variable Int32 ''r'' (Some 7)] ! 0)) = Some (Int32, ''r'', Some 7)
   \<and> simplify_lhs_arg (basic_externals\<lparr>can_prove := (\<lambda>e. True)\<rparr>)
        [7 \<mapsto> \<lparr>rd_domain = [\<lparr>rv_var = ''r'', rv_min = IntImm Int32 0, rv_extent = IntImm Int32 10\<rparr>],
               rd_predicate = const_true\<rparr>]
        [(''f'', [Interval (IntImm Int32 0) (IntImm Int32 9)])] ''f'' [''x''] 0
        ([Variable Int32 ''r'' (Some 7)],
         Call Float32 ''g'' [Variable Int32 ''r'' (Some 7)] Halide (Some 300) 0)
      = Inr ([Variable Int32 ''r'' (Some 7)],
             Call Float32 ''g'' [Variable Int32 ''r'' (Some 7)] Halide (Some 300) 0)"
proof -
  let ?X = "basic_externals\<lparr>can_prove := (\<lambda>e. True)\<rparr>"
  let ?c = "\<lparr>rd_domain = [\<lparr>rv_var = ''r'', rv_min = IntImm Int32 0, rv_extent = IntImm Int32 10\<rparr>],
            rd_predicate = const_true\<rparr>"
  let ?store = "[7 \<mapsto> ?c] :: rdom_store"
  let ?bounds = "[(''f'', [Interval (IntImm Int32 0) (IntImm Int32 9)])]"
  have 1: "as_Variable (substitute_in_all_lets ?X ([Variable Int32 ''r'' (Some 7)] ! 0))
             = Some (Int32, ''r'', Some 7)"
    by (simp add: basic_externals_def)
  have 2: "0 < length [Variable Int32 ''r'' (Some 7)]" by simp
  have 3: "0 < length [''x'']" by simp
  have 4: "?store 7 = Some ?c" by simp
  have 5: "find_rvar (rd_domain ?c) ''r'' = Some 0" by simp
  have 6: "map_of ?bounds ''f'' = Some [Interval (IntImm Int32 0) (IntImm Int32 9)]" by simp
  have 7: "0 < length [Interval (IntImm Int32 0) (IntImm Int32 9)]" by simp
  from span_rewrite_unreachable[where store = ?store and bounds = ?bounds, OF 1 2 3 4 5 6 7] 1
  show ?thesis by blast
qed

section \<open>Properties of the merge of reduction domains\<close>

lemma merged_rvars_new_first:
  "merged_rvars rvar_maps org
     = std_sort cmp_rv (new_rvar_vec rvar_maps org) @ std_sort cmp_rv (old_rvar_vec rvar_maps org)"
  by (simp add: merged_rvars_def)

text \<open>
  Claim C7, at a failing input. Differentiating \<^verbatim>\<open>k(x, y) = f(y * y)\<close> scatters to the
  accumulator of \<^verbatim>\<open>f\<close> through two reduction variables introduced in this step:
  \<^verbatim>\<open>r4$y\<close>, of index 1 in the domain at address 10, which replaces \<^verbatim>\<open>y\<close> in the
  coordinate, and \<^verbatim>\<open>r6$x\<close>, of index 0 in the domain at address 20, which replaces the
  free variable \<^verbatim>\<open>x\<close> of the adjoint. \<^verbatim>\<open>cmp_rv\<close> puts each of the two before the other
  (the first by its domain, the second by its index), and the merged domain lists the
  variable of the greater domain first: the group is not ordered by domain and index.
  Were the first variable named \<^verbatim>\<open>r9$y\<close>, so that it came second in \<^verbatim>\<open>rvar_maps\<close>, the
  same two pairs of domain and index would come out in the opposite order: the order
  of the merged domain is not a function of domain and index.
\<close>

theorem merged_order_evaluation:
  "gather_rvar_maps
     [10 \<mapsto> \<lparr>rd_domain = [\<lparr>rv_var = ''r4$x'', rv_min = IntImm Int32 0, rv_extent = IntImm Int32 8\<rparr>,
                           \<lparr>rv_var = ''r4$y'', rv_min = IntImm Int32 0, rv_extent = IntImm Int32 8\<rparr>],
             rd_predicate = const_true\<rparr>,
      20 \<mapsto> \<lparr>rd_domain = [\<lparr>rv_var = ''r6$x'', rv_min = IntImm Int32 0, rv_extent = IntImm Int32 8\<rparr>],
             rd_predicate = const_true\<rparr>]
     (Call Float32 ''k_0_d_def__''
        [Variable Int32 ''r6$x'' (Some 20), Variable Int32 ''r4$y'' (Some 10)] Halide (Some 400) 0)
     [Mul (Variable Int32 ''r4$y'' (Some 10)) (Variable Int32 ''r4$y'' (Some 10))]
   = Inr [(''r4$y'', \<lparr>rvi_min = IntImm Int32 0, rvi_extent = IntImm Int32 8, rvi_index = 1,
                     rvi_domain = 10, rvi_name = ''r4$y''\<rparr>),
          (''r6$x'', \<lparr>rvi_min = IntImm Int32 0, rvi_extent = IntImm Int32 8, rvi_index = 0,
                     rvi_domain = 20, rvi_name = ''r6$x''\<rparr>)]
   \<and> cmp_rv \<lparr>rvi_min = IntImm Int32 0, rvi_extent = IntImm Int32 8, rvi_index = 1,
              rvi_domain = 10, rvi_name = ''r4$y''\<rparr>
             \<lparr>rvi_min = IntImm Int32 0, rvi_extent = IntImm Int32 8, rvi_index = 0,
              rvi_domain = 20, rvi_name = ''r6$x''\<rparr>
   \<and> cmp_rv \<lparr>rvi_min = IntImm Int32 0, rvi_extent = IntImm Int32 8, rvi_index = 0,
              rvi_domain = 20, rvi_name = ''r6$x''\<rparr>
             \<lparr>rvi_min = IntImm Int32 0, rvi_extent = IntImm Int32 8, rvi_index = 1,
              rvi_domain = 10, rvi_name = ''r4$y''\<rparr>
   \<and> var_names
        [(''r4$y'', \<lparr>rvi_min = IntImm Int32 0, rvi_extent = IntImm Int32 8, rvi_index = 1,
                     rvi_domain = 10, rvi_name = ''r4$y''\<rparr>),
         (''r6$x'', \<lparr>rvi_min = IntImm Int32 0, rvi_extent = IntImm Int32 8, rvi_index = 0,
                     rvi_domain = 20, rvi_name = ''r6$x''\<rparr>)]
        []
      = [''r6$x'', ''r4$y'']
   \<and> var_names
        [(''r6$x'', \<lparr>rvi_min = IntImm Int32 0, rvi_extent = IntImm Int32 8, rvi_index = 0,
                     rvi_domain = 20, rvi_name = ''r6$x''\<rparr>),
         (''r9$y'', \<lparr>rvi_min = IntImm Int32 0, rvi_extent = IntImm Int32 8, rvi_index = 1,
                     rvi_domain = 10, rvi_name = ''r9$y''\<rparr>)]
        []
      = [''r9$y'', ''r6$x'']"
  by (simp add: gather_rvar_maps_def gather_rvariables_def smap_insert_all_def cmp_rv_def
      Compare_def var_names_def merged_rvars_def new_rvar_vec_def old_rvar_vec_def std_sort_def
      insert_step_def)

section \<open>Properties of the forward overwrite detection\<close>

lemma fold_err_check_prev_box:
  assumes "\<forall>prev \<in> set ps. length (boxes ! update_id) = length (boxes ! prev)"
  shows "fold_err (check_prev_box X func boxes update_id) ps ()
           = (if \<exists>prev \<in> set ps. boxes_overlap X (boxes ! update_id) (boxes ! prev)
              then Inl (overwrite_error func) else Inr ())"
  using assms by (induction ps) (auto simp: check_prev_box_def)

lemma check_self_reference_eq:
  assumes "\<forall>prev \<in> set [0 ..< update_id]. length (boxes ! update_id) = length (boxes ! prev)"
  shows "check_self_reference X func boxes update_id lets
           = (if (\<exists>v \<in> set (f_values func). is_calling_function X (expr_of v) lets)
                 \<or> (\<exists>prev \<in> set [0 ..< update_id].
                       boxes_overlap X (boxes ! update_id) (boxes ! prev))
              then Inl (overwrite_error func) else Inr ())"
  unfolding check_self_reference_def
  by (simp only: fold_err_check_prev_box[OF assms] split: if_splits) auto

lemma fold_err_check_entry:
  assumes "\<forall>prev \<in> set [0 ..< update_id]. length (boxes ! update_id) = length (boxes ! prev)"
  shows "fold_err (check_entry X func boxes update_id lets) entries used
           = (if (\<exists>it \<in> set entries. is_target_func_or_buffer (fst it)
                     \<and> is_calling_function_named X (f_name func) (snd it) lets)
                 \<and> ((\<exists>v \<in> set (f_values func). is_calling_function X (expr_of v) lets)
                    \<or> (\<exists>prev \<in> set [0 ..< update_id].
                          boxes_overlap X (boxes ! update_id) (boxes ! prev)))
              then Inl (overwrite_error func)
              else Inr (used \<or> (\<exists>it \<in> set entries. targets_other func (fst it))))"
proof (induction entries arbitrary: used)
  case Nil
  then show ?case by simp
next
  case (Cons it entries)
  have step: "check_entry X func boxes update_id lets it used
                = (if (is_target_func_or_buffer (fst it)
                         \<and> is_calling_function_named X (f_name func) (snd it) lets)
                      \<and> ((\<exists>v \<in> set (f_values func). is_calling_function X (expr_of v) lets)
                         \<or> (\<exists>prev \<in> set [0 ..< update_id].
                               boxes_overlap X (boxes ! update_id) (boxes ! prev)))
                   then Inl (overwrite_error func)
                   else Inr (used \<or> targets_other func (fst it)))"
    by (simp add: check_entry_def check_self_reference_eq[OF assms])
  show ?case
    by (auto simp: step Cons.IH)
qed

lemma check_overwritten_eq:
  assumes "\<forall>prev \<in> set [0 ..< update_id]. length (boxes ! update_id) = length (boxes ! prev)"
  shows "check_overwritten X func boxes update_id lets entries
           = (if (\<exists>it \<in> set entries. is_target_func_or_buffer (fst it)
                     \<and> is_calling_function_named X (f_name func) (snd it) lets)
                 \<and> ((\<exists>v \<in> set (f_values func). is_calling_function X (expr_of v) lets)
                    \<or> (\<exists>prev \<in> set [0 ..< update_id].
                          boxes_overlap X (boxes ! update_id) (boxes ! prev)))
              then Inl (overwrite_error func)
              else Inr (\<exists>it \<in> set entries. targets_other func (fst it)))"
  unfolding check_overwritten_def by (simp add: fold_err_check_entry[OF assms])

lemma fold_err_append:
  "fold_err f (xs @ ys) s
     = (case fold_err f xs s of Inl e \<Rightarrow> Inl e | Inr s' \<Rightarrow> fold_err f ys s')"
  by (induction xs arbitrary: s) (auto split: sum.splits)

lemma fold_err_reaches:
  assumes "fold_err f xs s = Inr s'" and "f x s' = Inl e"
  shows "fold_err f (xs @ x # ys) s = Inl e"
  using assms by (simp add: fold_err_append)

lemma detect_func_aborts:
  assumes "update_boxes X store func = Inr boxes"
    and "update_id < num_update_definitions func"
    and "fold_err (detect_update X scatter func boxes) [0 ..< update_id]
           ((fst st0)\<lparr>current_func := func\<rparr>, snd st0) = Inr st"
    and "detect_update X scatter func boxes update_id st = Inl e"
  shows "detect_func X scatter store func st0 = Inl e"
proof -
  have "[0 ..< num_update_definitions func]
          = [0 ..< update_id] @ update_id # [Suc update_id ..< num_update_definitions func]"
    using assms(2)
    by (metis le0 upt_add_eq_append upt_conv_Cons le_add_diff_inverse less_imp_le_nat add.commute)
  then show ?thesis
    using assms by (simp add: detect_func_def fold_err_reaches)
qed

lemma propagate_adjoints_aborts:
  assumes "dimensions adjoint = dimensions output"
    and "length output_bounds = dimensions output"
    and "realization_funcs X output = fs @ func # gs"
    and "fold_err (detect_func X scatter store) fs
           ((Visitor_new output)\<lparr>is_forward_overwrite_detection_phase := True\<rparr>, {}) = Inr st0"
    and "detect_func X scatter store func st0 = Inl e"
  shows "propagate_adjoints X scatter reverse_pass store output adjoint output_bounds = Inl e"
  using assms
  by (simp add: propagate_adjoints_def Visitor_propagate_adjoints_def
      forward_overwrite_detection_def fold_err_reaches)

lemma detection_example_sum:
  "map_sum id snd
     (forward_overwrite_detection basic_externals no_scatter example_store
        [example_g, example_sum] (Visitor_new example_sum)) = Inr {}"
  by code_simp

lemma detection_example_scale:
  "forward_overwrite_detection basic_externals no_scatter example_store
     [example_g, example_scale] (Visitor_new example_scale)
   = Inl (overwrite_error example_scale)"
  by code_simp

lemma detection_example_scan:
  "map_sum id snd
     (forward_overwrite_detection basic_externals no_scatter example_store
        [example_g, example_scan] (Visitor_new example_scan)) = Inr {(''f'', 0)}"
  by code_simp

lemma traversed_example:
  "detect_traverse basic_externals no_scatter example_scale (f_updates example_scale ! 0)
     (detecting example_scale) = Inr (traversed example_scale 0)"
  "detect_traverse basic_externals no_scatter example_scan (f_updates example_scan ! 0)
     (detecting example_scan) = Inr (traversed example_scan 0)"
  "detect_traverse basic_externals no_scatter example_square (f_updates example_square ! 0)
     (detecting example_square) = Inr (traversed example_square 0)"
  "detect_traverse basic_externals no_scatter example_versions (f_updates example_versions ! 1)
     (detecting example_versions) = Inr (traversed example_versions 1)"
  "detect_traverse basic_externals no_scatter example_split (f_updates example_split ! 1)
     (detecting example_split) = Inr (traversed example_split 1)"
  by code_simp+

text \<open>
  The first check, for any boxes of one length. After the expression-level pass of an
  update it aborts with the diagnostic exactly when some adjoint that targets a function
  or image calls the current function and, besides, the pure definition calls a
  function or image or the box of some previous update overlaps the box of this update;
  otherwise it passes (and reports whether an adjoint targets another function or
  image). When it aborts, so does the round of the update.
\<close>

lemma self_reference_check:
  assumes "\<forall>prev \<in> set [0 ..< update_id]. length (boxes ! update_id) = length (boxes ! prev)"
    and "detect_traverse X scatter func (f_updates func ! update_id) (fst st) = Inr s1"
  shows "check_overwritten X func boxes update_id (let_var_mapping s1) (expr_adjoints s1)
           = (if (\<exists>it \<in> set (expr_adjoints s1). is_target_func_or_buffer (fst it)
                     \<and> is_calling_function_named X (f_name func) (snd it) (let_var_mapping s1))
                 \<and> ((\<exists>v \<in> set (f_values func).
                        is_calling_function X (expr_of v) (let_var_mapping s1))
                    \<or> (\<exists>prev \<in> set [0 ..< update_id].
                          boxes_overlap X (boxes ! update_id) (boxes ! prev)))
              then Inl (overwrite_error func)
              else Inr (\<exists>it \<in> set (expr_adjoints s1). targets_other func (fst it)))
       \<and> ((\<exists>it \<in> set (expr_adjoints s1). is_target_func_or_buffer (fst it)
                     \<and> is_calling_function_named X (f_name func) (snd it) (let_var_mapping s1))
                 \<and> ((\<exists>v \<in> set (f_values func).
                        is_calling_function X (expr_of v) (let_var_mapping s1))
                    \<or> (\<exists>prev \<in> set [0 ..< update_id].
                          boxes_overlap X (boxes ! update_id) (boxes ! prev)))
            \<longrightarrow> detect_update X scatter func boxes update_id st = Inl (overwrite_error func))"
  using assms(2) by (simp add: check_overwritten_eq[OF assms(1)] detect_update_def)


lemma self_reference_check_examples:
  "check_overwritten basic_externals example_versions (example_boxes example_versions) 1
     (let_var_mapping (traversed example_versions 1)) (expr_adjoints (traversed example_versions 1))
     = Inr False
   \<and> check_overwritten basic_externals example_square (example_boxes example_square) 0
       (let_var_mapping (traversed example_square 0)) (expr_adjoints (traversed example_square 0))
     = Inl (overwrite_error example_square)
   \<and> detect_update basic_externals no_scatter example_square (example_boxes example_square) 0
       (detecting example_square, {}) = Inl (overwrite_error example_square)"
proof -
  have b1: "\<forall>prev \<in> set [0 ..< 1].
              length (example_boxes example_versions ! 1)
                = length (example_boxes example_versions ! prev)"
    by code_simp
  have t1: "detect_traverse basic_externals no_scatter example_versions
              (f_updates example_versions ! 1) (fst (detecting example_versions, {} :: FuncKey set))
            = Inr (traversed example_versions 1)"
    by (simp only: fst_conv traversed_example)
  have c1: "\<not> ((\<exists>it \<in> set (expr_adjoints (traversed example_versions 1)).
                 is_target_func_or_buffer (fst it)
                 \<and> is_calling_function_named basic_externals (f_name example_versions) (snd it)
                      (let_var_mapping (traversed example_versions 1)))
              \<and> ((\<exists>v \<in> set (f_values example_versions).
                     is_calling_function basic_externals (expr_of v)
                       (let_var_mapping (traversed example_versions 1)))
                 \<or> (\<exists>prev \<in> set [0 ..< 1].
                       boxes_overlap basic_externals (example_boxes example_versions ! 1)
                         (example_boxes example_versions ! prev))))"
    by code_simp
  have o1: "\<not> (\<exists>it \<in> set (expr_adjoints (traversed example_versions 1)).
                 targets_other example_versions (fst it))"
    by code_simp
  have b: "\<forall>prev \<in> set [0 ..< 0].
             length (example_boxes example_square ! 0) = length (example_boxes example_square ! prev)"
    by simp
  have t: "detect_traverse basic_externals no_scatter example_square (f_updates example_square ! 0)
             (fst (detecting example_square, {} :: FuncKey set)) = Inr (traversed example_square 0)"
    by (simp add: traversed_example)
  have c: "(\<exists>it \<in> set (expr_adjoints (traversed example_square 0)).
              is_target_func_or_buffer (fst it)
              \<and> is_calling_function_named basic_externals (f_name example_square) (snd it)
                   (let_var_mapping (traversed example_square 0)))
           \<and> ((\<exists>v \<in> set (f_values example_square).
                  is_calling_function basic_externals (expr_of v)
                    (let_var_mapping (traversed example_square 0)))
              \<or> (\<exists>prev \<in> set [0 ..< 0].
                    boxes_overlap basic_externals (example_boxes example_square ! 0)
                      (example_boxes example_square ! prev)))"
    by code_simp
  have 1: "check_overwritten basic_externals example_versions (example_boxes example_versions) 1
             (let_var_mapping (traversed example_versions 1))
             (expr_adjoints (traversed example_versions 1)) = Inr False"
    using self_reference_check[OF b1 t1] c1 o1 by simp
  from self_reference_check[OF b t] c 1 show ?thesis by simp
qed

text \<open>
  Claim C2, at a failing input. In
  \<^verbatim>\<open>f(x, y) = 0; f(x, r.x) = g(x); f(x, 10) = f(x, 9) * f(x, 9)\<close>, with \<^verbatim>\<open>r.x\<close> over 0 to
  9, the first update writes the rows 0 to 9 and the second one row 10, and the pure
  definition calls nothing. For the first update the pass computes the box with
  \<^verbatim>\<open>r.x\<close> from 0 to 11 (\<^verbatim>\<open>r.min + r.extent + 1\<close>, line 158), which overlaps row 10: the first
  check of the second update, and with it the detection phase, aborts with the
  diagnostic. With the box of the reduction domain itself, from \<^verbatim>\<open>r.min\<close> to
  \<^verbatim>\<open>r.min + r.extent - 1\<close>, the boxes are disjoint and the same check passes.
\<close>

theorem update_box_evaluation:
  "Scope_get (rvar_scope basic_externals (d_rvars (f_updates example_split ! 0))) ''r$x''
     = Inr (Interval (IntImm Int32 0) (IntImm Int32 11))
   \<and> update_boxes basic_externals example_store example_split
     = Inr [[Interval (Variable Int32 ''x'' None) (Variable Int32 ''x'' None),
             Interval (IntImm Int32 0) (IntImm Int32 11)],
            [Interval (Variable Int32 ''x'' None) (Variable Int32 ''x'' None),
             Interval (IntImm Int32 10) (IntImm Int32 10)]]
   \<and> check_overwritten basic_externals example_split (example_boxes example_split) 1
       (let_var_mapping (traversed example_split 1)) (expr_adjoints (traversed example_split 1))
     = Inl (overwrite_error example_split)
   \<and> forward_overwrite_detection basic_externals no_scatter example_store
       [example_g, example_split] (Visitor_new example_split)
     = Inl (overwrite_error example_split)
   \<and> domain_box (Variable Int32 ''x'' None) (d_rvars (f_updates example_split ! 0) ! 0)
     = [Interval (Variable Int32 ''x'' None) (Variable Int32 ''x'' None),
        Interval (IntImm Int32 0) (IntImm Int32 9)]
   \<and> check_overwritten basic_externals example_split
       [domain_box (Variable Int32 ''x'' None) (d_rvars (f_updates example_split ! 0) ! 0),
        example_boxes example_split ! 1]
       1 (let_var_mapping (traversed example_split 1)) (expr_adjoints (traversed example_split 1))
     = Inr False"
  by code_simp

text \<open>
  Claim C1. Let the detection phase of the entry point reach an update of one of the
  functions (the dimensions match, no earlier function and no earlier update of this
  function aborts) and let the expression-level pass of the update return (the boxes
  of the updates having one length). If the self-reference adjoint is not constant 0
  or 1 in every component, the update has reduction variables (one of them found in
  its left-hand side or values), the non-overwriting condition is not proven for some
  recorded self-reference, and some adjoint targets another function or an image, then
  the round of the update, and with it \<^verbatim>\<open>propagate_adjoints\<close>, aborts with the
  unsafe-overwrite error, whatever the later passes would do. In particular the
  detection passes \<^verbatim>\<open>f(x) = f(x) + g(r.x)\<close> without marking a scan.
\<close>

theorem unsafe_overwrite_error:
  assumes "dimensions adjoint = dimensions output"
    and "length output_bounds = dimensions output"
    and "realization_funcs X output = fs @ func # gs"
    and "fold_err (detect_func X scatter store) fs
           ((Visitor_new output)\<lparr>is_forward_overwrite_detection_phase := True\<rparr>, {}) = Inr st0"
    and "update_boxes X store func = Inr boxes"
    and "update_id < num_update_definitions func"
    and "fold_err (detect_update X scatter func boxes) [0 ..< update_id]
           ((fst st0)\<lparr>current_func := func\<rparr>, snd st0) = Inr st"
    and "detect_traverse X scatter func (f_updates func ! update_id) (fst st) = Inr s1"
    and "\<forall>prev \<in> set [0 ..< update_id]. length (boxes ! update_id) = length (boxes ! prev)"
    and "\<not> all_zero_or_one_self_adjoint X s1"
    and "d_rvars (f_updates func ! update_id) \<noteq> []"
    and "update_rdom X (f_updates func ! update_id) \<noteq> None"
    and "is_not_overwriting X (d_args (f_updates func ! update_id)) (self_reference_args s1) True
           = Inr False"
    and "\<exists>it \<in> set (expr_adjoints s1). targets_other func (fst it)"
  shows "detect_update X scatter func boxes update_id st = Inl (overwrite_error func)
       \<and> propagate_adjoints X scatter reverse_pass store output adjoint output_bounds
           = Inl (overwrite_error func)
       \<and> map_sum id snd
           (forward_overwrite_detection basic_externals no_scatter example_store
              [example_g, example_sum] (Visitor_new example_sum)) = Inr {}"
proof -
  have 1: "detect_update X scatter func boxes update_id st = Inl (overwrite_error func)"
    using assms(8-14)
    by (auto simp: detect_update_def check_overwritten_eq[OF assms(9)]
        all_zero_or_one_self_adjoint_def Let_def)
  have 2: "detect_func X scatter store func st0 = Inl (overwrite_error func)"
    using assms(5-7) 1 by (rule detect_func_aborts)
  have 3: "propagate_adjoints X scatter reverse_pass store output adjoint output_bounds
             = Inl (overwrite_error func)"
    using assms(1-4) 2 by (rule propagate_adjoints_aborts)
  show ?thesis using 1 3 detection_example_sum by simp
qed

theorem unsafe_overwrite_error_witness:
  "propagate_adjoints (basic_externals\<lparr>realization_funcs := (\<lambda>output. [example_g, output])\<rparr>)
     no_scatter (\<lambda>funcs scans adjoint bounds s. Inr s) example_store example_scale
     (Function_stub ''adjoint'' 300) [(IntImm Int32 0, IntImm Int32 9)]
   = Inl (overwrite_error example_scale)"
proof -
  let ?X = "basic_externals\<lparr>realization_funcs := (\<lambda>output. [example_g, output])\<rparr>"
  let ?before = "((detecting example_scale)\<lparr>current_func := example_g\<rparr>, {} :: FuncKey set)"
  let ?reached = "(detecting example_scale, {} :: FuncKey set)"
  have d1: "dimensions (Function_stub ''adjoint'' 300) = dimensions example_scale"
    by code_simp
  have d2: "length [(IntImm Int32 0, IntImm Int32 9)] = dimensions example_scale"
    by code_simp
  have f: "realization_funcs ?X example_scale = [example_g] @ example_scale # []"
    by simp
  have g: "fold_err (detect_func ?X no_scatter example_store) [example_g]
             ((Visitor_new example_scale)\<lparr>is_forward_overwrite_detection_phase := True\<rparr>, {})
           = Inr ?before"
    by code_simp
  have x: "update_boxes ?X example_store example_scale = Inr (example_boxes example_scale)"
    by code_simp
  have i: "0 < num_update_definitions example_scale"
    by code_simp
  have e: "fold_err (detect_update ?X no_scatter example_scale (example_boxes example_scale))
             [0 ..< 0] ((fst ?before)\<lparr>current_func := example_scale\<rparr>, snd ?before) = Inr ?reached"
    by code_simp
  have t: "detect_traverse ?X no_scatter example_scale (f_updates example_scale ! 0) (fst ?reached)
             = Inr (traversed example_scale 0)"
    by code_simp
  have b: "\<forall>prev \<in> set [0 ..< 0].
             length (example_boxes example_scale ! 0) = length (example_boxes example_scale ! prev)"
    by simp
  have a: "\<not> all_zero_or_one_self_adjoint ?X (traversed example_scale 0)"
    by code_simp
  have r: "d_rvars (f_updates example_scale ! 0) \<noteq> []"
    by code_simp
  have u: "update_rdom ?X (f_updates example_scale ! 0) \<noteq> None"
    by code_simp
  have n: "is_not_overwriting ?X (d_args (f_updates example_scale ! 0))
             (self_reference_args (traversed example_scale 0)) True = Inr False"
    by code_simp
  have o: "\<exists>it \<in> set (expr_adjoints (traversed example_scale 0)).
             targets_other example_scale (fst it)"
    by code_simp
  from unsafe_overwrite_error[OF d1 d2 f g x i e t b a r u n o] show ?thesis by simp
qed

text \<open>
  Claim C3, as the code has it. Take a round of the detection loop whose
  expression-level pass returns. If the round returns at all, it marks the update key
  as a non-overwriting scan exactly when the self-reference adjoint is not constant 0
  or 1 in every component, the update has reduction variables and the non-overwriting
  condition is proven for every recorded self-reference; so a key is marked only when
  the condition is proven. If the first check passes with the flag
  \<^verbatim>\<open>adjoints_used_by_others\<close> equal to \<open>used\<close> (and the internal assertions of the second
  check hold), the round is determined as follows: under the first two conditions it
  marks the key when the condition is proven, whatever \<open>used\<close> is, and otherwise aborts
  with the unsafe-overwrite error when \<open>used\<close> holds and returns without marking when it
  does not; without them it returns without marking. The flag is set exactly when some
  adjoint targets another function or an image.
\<close>

theorem scan_marking:
  assumes "detect_traverse X scatter func (f_updates func ! update_id) (fst st) = Inr s1"
  shows "(\<forall>s2 scans.
            detect_update X scatter func boxes update_id st = Inr (s2, scans) \<longrightarrow>
            scans =
              (if \<not> all_zero_or_one_self_adjoint X s1 \<and> d_rvars (f_updates func ! update_id) \<noteq> []
                  \<and> is_not_overwriting X (d_args (f_updates func ! update_id))
                       (self_reference_args s1) True = Inr True
               then insert (f_name func, int update_id) (snd st) else snd st))
       \<and> (\<forall>used proven.
            check_overwritten X func boxes update_id (let_var_mapping s1) (expr_adjoints s1)
              = Inr used
            \<and> update_rdom X (f_updates func ! update_id) \<noteq> None
            \<and> is_not_overwriting X (d_args (f_updates func ! update_id))
                  (self_reference_args s1) True = Inr proven \<longrightarrow>
            detect_update X scatter func boxes update_id st =
              (if \<not> all_zero_or_one_self_adjoint X s1 \<and> d_rvars (f_updates func ! update_id) \<noteq> []
               then (if proven
                     then Inr (s1\<lparr>expr_adjoints := []\<rparr>,
                               insert (f_name func, int update_id) (snd st))
                     else if used then Inl (overwrite_error func)
                     else Inr (s1\<lparr>expr_adjoints := []\<rparr>, snd st))
               else Inr (s1\<lparr>expr_adjoints := []\<rparr>, snd st))
            \<and> ((\<forall>prev \<in> set [0 ..< update_id].
                    length (boxes ! update_id) = length (boxes ! prev)) \<longrightarrow>
                 used = (\<exists>it \<in> set (expr_adjoints s1). targets_other func (fst it))))"
proof -
  have a: "\<forall>s2 scans.
            detect_update X scatter func boxes update_id st = Inr (s2, scans) \<longrightarrow>
            scans =
              (if \<not> all_zero_or_one_self_adjoint X s1 \<and> d_rvars (f_updates func ! update_id) \<noteq> []
                  \<and> is_not_overwriting X (d_args (f_updates func ! update_id))
                       (self_reference_args s1) True = Inr True
               then insert (f_name func, int update_id) (snd st) else snd st)"
    using assms
    by (auto simp: detect_update_def all_zero_or_one_self_adjoint_def Let_def
        split: sum.splits if_splits)
  have b: "detect_update X scatter func boxes update_id st =
              (if \<not> all_zero_or_one_self_adjoint X s1 \<and> d_rvars (f_updates func ! update_id) \<noteq> []
               then (if proven
                     then Inr (s1\<lparr>expr_adjoints := []\<rparr>,
                               insert (f_name func, int update_id) (snd st))
                     else if used then Inl (overwrite_error func)
                     else Inr (s1\<lparr>expr_adjoints := []\<rparr>, snd st))
               else Inr (s1\<lparr>expr_adjoints := []\<rparr>, snd st))"
    if "check_overwritten X func boxes update_id (let_var_mapping s1) (expr_adjoints s1)
          = Inr used"
      and "update_rdom X (f_updates func ! update_id) \<noteq> None"
      and "is_not_overwriting X (d_args (f_updates func ! update_id))
             (self_reference_args s1) True = Inr proven"
    for used proven
    using assms that
    by (auto simp: detect_update_def all_zero_or_one_self_adjoint_def Let_def)
  have c: "used = (\<exists>it \<in> set (expr_adjoints s1). targets_other func (fst it))"
    if "check_overwritten X func boxes update_id (let_var_mapping s1) (expr_adjoints s1)
          = Inr used"
      and "\<forall>prev \<in> set [0 ..< update_id]. length (boxes ! update_id) = length (boxes ! prev)"
    for used
    using that(1) by (simp add: check_overwritten_eq[OF that(2)] split: if_splits)
  from a b c show ?thesis by blast
qed

theorem scan_marking_witness:
  "detect_update basic_externals no_scatter example_scan (example_boxes example_scan) 0
     (detecting example_scan, {})
   = Inr ((traversed example_scan 0)\<lparr>expr_adjoints := []\<rparr>, {(''f'', 0)})
   \<and> check_overwritten basic_externals example_scan (example_boxes example_scan) 0
       (let_var_mapping (traversed example_scan 0)) (expr_adjoints (traversed example_scan 0))
     = Inr True"
proof -
  have t: "detect_traverse basic_externals no_scatter example_scan (f_updates example_scan ! 0)
             (fst (detecting example_scan, {} :: FuncKey set)) = Inr (traversed example_scan 0)"
    by (simp add: traversed_example)
  have k: "check_overwritten basic_externals example_scan (example_boxes example_scan) 0
             (let_var_mapping (traversed example_scan 0))
             (expr_adjoints (traversed example_scan 0)) = Inr True"
    by code_simp
  have u: "update_rdom basic_externals (f_updates example_scan ! 0) \<noteq> None"
    by code_simp
  have n: "is_not_overwriting basic_externals (d_args (f_updates example_scan ! 0))
             (self_reference_args (traversed example_scan 0)) True = Inr True"
    by code_simp
  have a: "\<not> all_zero_or_one_self_adjoint basic_externals (traversed example_scan 0)"
    by code_simp
  have r: "d_rvars (f_updates example_scan ! 0) \<noteq> []"
    by code_simp
  have f: "f_name example_scan = ''f''"
    by (simp add: example_scan_def)
  from scan_marking[OF t, of "example_boxes example_scan"] k u n
  have "detect_update basic_externals no_scatter example_scan (example_boxes example_scan) 0
          (detecting example_scan, {})
        = (if \<not> all_zero_or_one_self_adjoint basic_externals (traversed example_scan 0)
              \<and> d_rvars (f_updates example_scan ! 0) \<noteq> []
           then (if True
                 then Inr ((traversed example_scan 0)\<lparr>expr_adjoints := []\<rparr>,
                           insert (f_name example_scan, int 0) (snd (detecting example_scan, {})))
                 else if True then Inl (overwrite_error example_scan)
                 else Inr ((traversed example_scan 0)\<lparr>expr_adjoints := []\<rparr>,
                           snd (detecting example_scan, {})))
           else Inr ((traversed example_scan 0)\<lparr>expr_adjoints := []\<rparr>,
                     snd (detecting example_scan, {})))"
    by blast
  with a r f k show ?thesis by simp
qed

text \<open>In \<^verbatim>\<open>f(x, r.x + 1) = 2 * f(x, r.x) + g(r.x)\<close> the adjoint is used by another
  function (the first check returns the flag \<^verbatim>\<open>adjoints_used_by_others\<close> set), and the
  key of the update is marked as a non-overwriting scan all the same.\<close>

theorem scan_marking_counterexample:
  "check_overwritten basic_externals example_scan (example_boxes example_scan) 0
     (let_var_mapping (traversed example_scan 0)) (expr_adjoints (traversed example_scan 0))
     = Inr True
   \<and> map_sum id snd
       (forward_overwrite_detection basic_externals no_scatter example_store
          [example_g, example_scan] (Visitor_new example_scan)) = Inr {(''f'', 0)}"
  by code_simp

text \<open>
  Claim C9. The entry point returns the dimension error, without calling the visitor,
  exactly when the adjoint's number of dimensions differs from the output's or the
  length of \<^verbatim>\<open>output_bounds\<close> differs from the output's number of dimensions; when both
  match it runs the visitor and returns its adjoint map (or the visitor's error).
\<close>

theorem entry_point_dimension_checks:
  "propagate_adjoints X scatter reverse_pass store output adjoint output_bounds =
     (if dimensions adjoint = dimensions output \<and> length output_bounds = dimensions output
      then (case Visitor_propagate_adjoints X scatter reverse_pass store output adjoint
                   output_bounds (Visitor_new output) of
              Inl e \<Rightarrow> Inl e
            | Inr s \<Rightarrow> Inr (adjoint_funcs s))
      else Inl (User_error
                  (if dimensions adjoint = dimensions output
                   then ''output_bounds and adjoint dimensions must match''
                   else ''output dimensions and adjoint dimensions must match'')))"
  by (auto simp: propagate_adjoints_def)

end
